theory Spec2Isabelle
  imports Complex_Main "HOL-Library.List_Lexorder" "HOL-Library.Char_ord" "HOL-Library.Multiset"
begin

section \<open>Python values\<close>

text \<open>
  The builder \<^verbatim>\<open>build_public_pages.py\<close> reads JSON/YAML records and writes HTML text.
  A Python \<^verbatim>\<open>str\<close> is modelled as a HOL \<^typ>\<open>string\<close> holding the bytes of its UTF-8
  encoding (every file is opened with \<^verbatim>\<open>encoding="utf-8"\<close>, so this is what is read and
  written); the non-ASCII characters of the source's literals are spelled out as their
  UTF-8 bytes. Case mapping, white space and digits are those of the ASCII range.

  A Python \<^verbatim>\<open>float\<close> is a finite value, given by the rational number it denotes, or one
  of NaN and the two infinities. Sums and quotients of finite floats are computed
  exactly, which is what the IEEE arithmetic does as long as no rounding occurs.

  A parsed value is \<^verbatim>\<open>None\<close>, a truth value, a number, a string, a list or a mapping. The
  keys of a mapping are strings, kept in the order of the file: the program looks
  mappings up by string keys only.
\<close>

datatype pyfloat = Fin rat | NaN | PosInf | NegInf

datatype pyval =
    PNone
  | PBool bool
  | PInt int
  | PFloat pyfloat
  | PStr string
  | PList "pyval list"
  | PDict "(string \<times> pyval) list"

datatype exc =
    OSError | UnicodeDecodeError | ParseError
  | AttributeError | TypeError | ValueError | OverflowError

text \<open>Truth value of an object, as \<^verbatim>\<open>if v\<close>, \<^verbatim>\<open>not v\<close> and \<^verbatim>\<open>v or w\<close> test it.\<close>

fun truthy :: "pyval \<Rightarrow> bool" where
  "truthy PNone = False"
| "truthy (PBool b) = b"
| "truthy (PInt i) = (i \<noteq> 0)"
| "truthy (PFloat f) = (f \<noteq> Fin 0)"
| "truthy (PStr s) = (s \<noteq> [])"
| "truthy (PList xs) = (xs \<noteq> [])"
| "truthy (PDict kvs) = (kvs \<noteq> [])"

definition por :: "pyval \<Rightarrow> pyval \<Rightarrow> pyval" where
  "por a b = (if truthy a then a else b)"

text \<open>\<^verbatim>\<open>obj.get(key)\<close> on a mapping: \<^verbatim>\<open>None\<close> when the key is absent.\<close>

definition dget :: "(string \<times> pyval) list \<Rightarrow> string \<Rightarrow> pyval" where
  "dget d k = (case map_of d k of None \<Rightarrow> PNone | Some v \<Rightarrow> v)"

section \<open>String operations\<close>

definition is_space :: "char \<Rightarrow> bool" where
  "is_space c = (let n = (of_char c :: nat) in (9 \<le> n \<and> n \<le> 13) \<or> (28 \<le> n \<and> n \<le> 32))"

definition is_upper :: "char \<Rightarrow> bool" where
  "is_upper c = (let n = (of_char c :: nat) in 65 \<le> n \<and> n \<le> 90)"

definition is_lower :: "char \<Rightarrow> bool" where
  "is_lower c = (let n = (of_char c :: nat) in 97 \<le> n \<and> n \<le> 122)"

definition is_digit :: "char \<Rightarrow> bool" where
  "is_digit c = (let n = (of_char c :: nat) in 48 \<le> n \<and> n \<le> 57)"

definition lower_chr :: "char \<Rightarrow> char" where
  "lower_chr c = (if is_upper c then char_of ((of_char c :: nat) + 32) else c)"

definition upper_chr :: "char \<Rightarrow> char" where
  "upper_chr c = (if is_lower c then char_of ((of_char c :: nat) - 32) else c)"

definition lower :: "string \<Rightarrow> string" where
  "lower s = map lower_chr s"

definition lstrip :: "string \<Rightarrow> string" where
  "lstrip s = dropWhile is_space s"

definition rstrip :: "string \<Rightarrow> string" where
  "rstrip s = rev (dropWhile is_space (rev s))"

definition strip :: "string \<Rightarrow> string" where
  "strip s = rstrip (lstrip s)"

definition startswith :: "string \<Rightarrow> string \<Rightarrow> bool" where
  "startswith s p = (take (length p) s = p)"

definition endswith :: "string \<Rightarrow> string \<Rightarrow> bool" where
  "endswith s p = (length p \<le> length s \<and> drop (length s - length p) s = p)"

text \<open>\<^verbatim>\<open>s.endswith((p1, p2, ...))\<close> with a tuple of suffixes.\<close>

definition endswith_any :: "string \<Rightarrow> string list \<Rightarrow> bool" where
  "endswith_any s ps = list_ex (endswith s) ps"

text \<open>\<^verbatim>\<open>s.title()\<close>: a cased character is upper case after an uncased one, lower case
  after a cased one. The flag says whether the previous character was cased.\<close>

fun title_from :: "bool \<Rightarrow> string \<Rightarrow> string" where
  "title_from prev [] = []"
| "title_from prev (c # cs) =
     (if is_upper c \<or> is_lower c
      then (if prev then lower_chr c else upper_chr c) # title_from True cs
      else c # title_from False cs)"

definition title_case :: "string \<Rightarrow> string" where
  "title_case s = title_from False s"

text \<open>\<^verbatim>\<open>s.replace(c, new)\<close> for a one-character \<^verbatim>\<open>c\<close>.\<close>

definition replace_chr :: "char \<Rightarrow> string \<Rightarrow> string \<Rightarrow> string" where
  "replace_chr c new s = concat (map (\<lambda>x. if x = c then new else [x]) s)"

text \<open>\<^verbatim>\<open>sep.join(xs)\<close>.\<close>

fun join :: "string \<Rightarrow> string list \<Rightarrow> string" where
  "join sep [] = []"
| "join sep [x] = x"
| "join sep (x # y # ys) = x @ sep @ join sep (y # ys)"

text \<open>\<^verbatim>\<open>s.split(c)\<close> for a one-character separator: the pieces between the separators,
  empty ones included. The accumulator holds the current piece.\<close>

fun split_acc :: "char \<Rightarrow> string \<Rightarrow> string \<Rightarrow> string list" where
  "split_acc c acc [] = [acc]"
| "split_acc c acc (x # xs) =
     (if x = c then acc # split_acc c [] xs else split_acc c (acc @ [x]) xs)"

definition split_chr :: "char \<Rightarrow> string \<Rightarrow> string list" where
  "split_chr c s = split_acc c [] s"

text \<open>Decimal text of an integer, \<^verbatim>\<open>str(i)\<close>.\<close>

fun str_nat :: "nat \<Rightarrow> string" where
  "str_nat n =
     (if n < 10 then [char_of (48 + n)]
      else str_nat (n div 10) @ [char_of (48 + n mod 10)])"

declare str_nat.simps [simp del]

definition str_int :: "int \<Rightarrow> string" where
  "str_int i = (if i < 0 then CHR ''-'' # str_nat (nat (- i)) else str_nat (nat i))"

definition escape_html_str :: "string \<Rightarrow> string" where
  "escape_html_str text =
     replace_chr CHR ''>'' ''&gt;'' (replace_chr CHR ''<'' ''&lt;'' (replace_chr CHR ''&'' ''&amp;'' text))"

text \<open>\<^verbatim>\<open>escape_html\<close>: anything that is not a string becomes the empty string.\<close>

definition escape_html :: "pyval \<Rightarrow> string" where
  "escape_html v = (case v of PStr text \<Rightarrow> escape_html_str text | _ \<Rightarrow> [])"

section \<open>The environment\<close>

text \<open>
  What the program takes from outside: the file system as seen from the working
  directory, the environment variable \<^verbatim>\<open>GITHUB_REPOSITORY\<close>, and the library functions
  whose results are not computed here (the JSON and YAML parsers, the text of a float,
  the parsing of a float, the text of a list or mapping).
  A raised exception is the left summand.
\<close>

record env =
  isdir :: "string \<Rightarrow> bool"
  path_exists :: "string \<Rightarrow> bool"
  listdir :: "string \<Rightarrow> exc + string list"
  walk :: "string \<Rightarrow> (string \<times> string list) list"
  read_text :: "string \<Rightarrow> exc + string"
  github_repository :: "string option"
  json_loads :: "string \<Rightarrow> exc + pyval"
  yaml_safe_load :: "string \<Rightarrow> exc + pyval"
  float_repr :: "pyfloat \<Rightarrow> string"
  float_of_str :: "string \<Rightarrow> pyfloat option"
  container_repr :: "pyval \<Rightarrow> string"

section \<open>Loading records\<close>

text \<open>The line \<^verbatim>\<open>load_data\<close> prints when reading or parsing fails.\<close>

datatype event = FailedToLoad string exc | FailedGenerating string exc

text \<open>\<^verbatim>\<open>data = parsed or []; return data if isinstance(data, list) else [data]\<close>\<close>

definition as_records :: "pyval \<Rightarrow> pyval list" where
  "as_records parsed =
     (let data = por parsed (PList []) in case data of PList xs \<Rightarrow> xs | _ \<Rightarrow> [data])"

definition parsed_records :: "string \<Rightarrow> exc + pyval \<Rightarrow> pyval list \<times> event list" where
  "parsed_records filepath r =
     (case r of Inl e \<Rightarrow> ([], [FailedToLoad filepath e]) | Inr v \<Rightarrow> (as_records v, []))"

text \<open>\<^verbatim>\<open>load_data\<close> returns the records and the lines it printed.\<close>

definition load_data :: "env \<Rightarrow> string \<Rightarrow> pyval list \<times> event list" where
  "load_data E filepath =
     (if filepath = [] \<or> \<not> path_exists E filepath then ([], [])
      else case read_text E filepath of
          Inl e \<Rightarrow> ([], [FailedToLoad filepath e])
        | Inr raw \<Rightarrow>
            (let content = strip raw in
             if content = [] then ([], [])
             else let lower_path = lower filepath in
               if endswith_any lower_path [''.json'', ''.jsonld'']
               then parsed_records filepath (json_loads E content)
               else if endswith_any lower_path [''.yaml'', ''.yml'']
               then parsed_records filepath (yaml_safe_load E content)
               else if endswith_any lower_path [''.txt'', ''.md'', ''.llm'']
               then (let stripped = lstrip content in
                     if startswith stripped ''{'' \<or> startswith stripped ''[''
                     then parsed_records filepath (json_loads E content)
                     else parsed_records filepath (yaml_safe_load E content))
               else ([], [])))"

definition records :: "env \<Rightarrow> string \<Rightarrow> pyval list" where
  "records E filepath = fst (load_data E filepath)"

section \<open>Field extractors\<close>

text \<open>\<^verbatim>\<open>str(v)\<close>.\<close>

definition str_py :: "env \<Rightarrow> pyval \<Rightarrow> string" where
  "str_py E v =
     (case v of
        PNone \<Rightarrow> ''None''
      | PBool b \<Rightarrow> (if b then ''True'' else ''False'')
      | PInt i \<Rightarrow> str_int i
      | PFloat f \<Rightarrow> float_repr E f
      | PStr s \<Rightarrow> s
      | _ \<Rightarrow> container_repr E v)"

text \<open>\<^verbatim>\<open>_first_nonempty(*vals)\<close>. A \<^verbatim>\<open>bool\<close> is an \<^verbatim>\<open>int\<close> for \<^verbatim>\<open>isinstance\<close>; the test
  \<^verbatim>\<open>v == v\<close> fails for NaN only.\<close>

fun first_nonempty :: "env \<Rightarrow> pyval list \<Rightarrow> string" where
  "first_nonempty E [] = []"
| "first_nonempty E (v # vs) =
     (case v of
        PStr s \<Rightarrow> (if strip s \<noteq> [] then strip s else first_nonempty E vs)
      | PBool b \<Rightarrow> str_py E v
      | PInt i \<Rightarrow> str_py E v
      | PFloat f \<Rightarrow> (if f = NaN then first_nonempty E vs else str_py E v)
      | PDict d \<Rightarrow>
          (case map_of d ''@value'' of
             Some (PStr s) \<Rightarrow> (if strip s \<noteq> [] then strip s else first_nonempty E vs)
           | _ \<Rightarrow> first_nonempty E vs)
      | _ \<Rightarrow> first_nonempty E vs)"

definition as_list :: "env \<Rightarrow> pyval \<Rightarrow> string list" where
  "as_list E val =
     (case val of
        PList xs \<Rightarrow> filter (\<lambda>s. s \<noteq> []) (map (\<lambda>x. strip (str_py E x)) xs)
      | PStr s \<Rightarrow>
          (if strip s \<noteq> []
           then filter (\<lambda>s. s \<noteq> []) (map strip (split_chr CHR '','' s))
           else [])
      | _ \<Rightarrow> [])"

text \<open>\<^verbatim>\<open>os.path.basename\<close>, \<^verbatim>\<open>os.path.splitext(p)[0]\<close> and \<^verbatim>\<open>os.path.join\<close> of
  \<^verbatim>\<open>posixpath\<close>. The extension starts at the last dot of the last component, unless only
  dots come before it there.\<close>

definition basename :: "string \<Rightarrow> string" where
  "basename p = rev (takeWhile (\<lambda>c. c \<noteq> CHR ''/'') (rev p))"

definition before_last_dot :: "string \<Rightarrow> string" where
  "before_last_dot p = rev (tl (dropWhile (\<lambda>c. c \<noteq> CHR ''.'') (rev p)))"

definition splitext_root :: "string \<Rightarrow> string" where
  "splitext_root p =
     (let b = basename p in
      if CHR ''.'' \<in> set b \<and> list_ex (\<lambda>c. c \<noteq> CHR ''.'') (before_last_dot b)
      then before_last_dot p else p)"

definition join_path :: "string \<Rightarrow> string \<Rightarrow> string" where
  "join_path a b =
     (if startswith b ''/'' then b
      else if a = [] \<or> endswith a ''/'' then a @ b
      else a @ ''/'' @ b)"

definition title_from_filename :: "string \<Rightarrow> string" where
  "title_from_filename path =
     (let base = splitext_root (basename path) in
      title_case (strip (replace_chr CHR ''_'' '' '' (replace_chr CHR ''-'' '' '' base))))"

text \<open>The pattern \<^verbatim>\<open>(service|item|entry)\s*\d+\<close>, matched against the whole text.\<close>

definition numbered_generic :: "string \<Rightarrow> bool" where
  "numbered_generic t =
     list_ex (\<lambda>w. startswith t w \<and>
                 (let rest = dropWhile is_space (drop (length w) t)
                  in rest \<noteq> [] \<and> list_all is_digit rest))
       [''service'', ''item'', ''entry'']"

definition is_placeholder_title :: "pyval \<Rightarrow> bool" where
  "is_placeholder_title v =
     (case v of
        PStr text \<Rightarrow>
          (if strip text = [] then True
           else let t = lower (strip text) in
             t \<in> set [''service'', ''unnamed service'', ''untitled'', ''n/a'', ''na'', ''tbd'']
             \<or> numbered_generic t)
      | _ \<Rightarrow> True)"

definition guess_description :: "env \<Rightarrow> (string \<times> pyval) list \<Rightarrow> string" where
  "guess_description E obj =
     first_nonempty E
       [dget obj ''description'', dget obj ''summary'', dget obj ''details'', dget obj ''body'',
        dget obj ''content'', dget obj ''answer'', dget obj ''copy'']"

definition guess_price :: "env \<Rightarrow> (string \<times> pyval) list \<Rightarrow> string" where
  "guess_price E obj =
     (let p = first_nonempty E
                [dget obj ''price'', dget obj ''price_range'', dget obj ''starting_price'',
                 dget obj ''min_price'', dget obj ''cost'', dget obj ''fee'']
      in if p \<noteq> [] then p else ''Contact for pricing'')"

text \<open>The de-duplication loop of \<^verbatim>\<open>_bullet_points\<close>: \<open>seen\<close> holds the lower-cased
  bullets kept so far.\<close>

fun dedupe :: "string list \<Rightarrow> string list \<Rightarrow> string list" where
  "dedupe seen [] = []"
| "dedupe seen (b # bs) =
     (let key = lower b in
      if key \<in> set seen then dedupe seen bs else b # dedupe (key # seen) bs)"

definition bullet_points :: "env \<Rightarrow> (string \<times> pyval) list \<Rightarrow> string list" where
  "bullet_points E obj =
     (let feats = as_list E (por (dget obj ''features'') (por (dget obj ''benefits'') (dget obj ''highlights'')));
          specs = as_list E (por (dget obj ''specialties'') (dget obj ''capabilities''));
          areas = as_list E (por (dget obj ''service_areas'') (por (dget obj ''areas'') (dget obj ''locations_served'')));
          bullets = take 3 feats;
          bullets = (if bullets = [] then take 3 specs else bullets);
          bullets = (if areas \<noteq> [] then bullets @ [''Service areas: '' @ join '', '' (take 5 areas)]
                     else bullets)
      in take 4 (dedupe [] bullets))"

text \<open>\<^verbatim>\<open>re.sub(r"[\s]+", "-", s)\<close>; the flag says whether the previous character was
  white space.\<close>

fun collapse_from :: "bool \<Rightarrow> string \<Rightarrow> string" where
  "collapse_from prev [] = []"
| "collapse_from prev (c # cs) =
     (if is_space c
      then (if prev then collapse_from True cs else CHR ''-'' # collapse_from True cs)
      else c # collapse_from False cs)"

definition slugify :: "string \<Rightarrow> string" where
  "slugify text =
     (if text = [] then ''item''
      else let kept = filter (\<lambda>c. is_upper c \<or> is_lower c \<or> is_digit c \<or> is_space c \<or> c = CHR ''-'') text;
               slug = collapse_from False (lower (strip kept))
           in if slug = [] then ''item'' else slug)"

section \<open>Folder resolution\<close>

definition first_existing_dir :: "(string \<Rightarrow> bool) \<Rightarrow> string list \<Rightarrow> string option" where
  "first_existing_dir is_dir candidates = find (\<lambda>d. d \<noteq> [] \<and> is_dir d) candidates"

definition list_data_files :: "env \<Rightarrow> string \<Rightarrow> string list \<Rightarrow> string list" where
  "list_data_files E folder exts =
     (if folder = [] \<or> \<not> isdir E folder then []
      else concat (map (\<lambda>(root, files).
                          map (join_path root) (filter (\<lambda>fn. endswith_any (lower fn) exts) files))
                       (walk E folder)))"

text \<open>
  The module-level constants. They are computed when the module is loaded, before the
  driver changes the working directory, so the renderers take them as a parameter.
  (\<^verbatim>\<open>TEAM_DIR\<close>, \<^verbatim>\<open>PRESS_DIR\<close> and \<^verbatim>\<open>CASE_STUDIES_DIR\<close> are never read and are left out.)
\<close>

record dirs =
  ORG_DIR :: "string option"
  SERVICES_DIR :: "string option"
  REVIEWS_DIR :: "string option"
  FAQ_DIR :: "string option"
  HELP_DIR :: "string option"
  LOCATIONS_DIR :: "string option"
  LLM_DATA_DIR :: "string option"

definition org_candidates :: "string list" where
  "org_candidates = [''schemas/organization'', ''schemas/organizations'', ''schemas/company'',
     ''schemas/entity'', ''schemas/business'', ''organization'', ''company'', ''business'']"

definition services_candidates :: "string list" where
  "services_candidates = [''schemas/services'', ''services'', ''practice-areas'', ''practice_areas'']"

definition reviews_candidates :: "string list" where
  "reviews_candidates = [''schemas/reviews'', ''reviews'', ''testimonials'']"

definition faq_candidates :: "string list" where
  "faq_candidates = [''schemas/faqs'', ''faqs'', ''faq-schemas'', ''faq_schemas'']"

definition help_candidates :: "string list" where
  "help_candidates = [''schemas/help-articles'', ''help-articles'', ''help_articles'',
     join_path ''llm-data'' ''help-articles'', join_path ''llm-data'' ''help_articles'']"

definition locations_candidates :: "string list" where
  "locations_candidates = [''schemas/locations'', ''locations'', ''offices'', ''office-locations'',
     ''office_locations'']"

definition llm_data_candidates :: "string list" where
  "llm_data_candidates = [''llm-data'', ''llm_data'', ''llm'', ''data'']"

definition module_dirs :: "(string \<Rightarrow> bool) \<Rightarrow> dirs" where
  "module_dirs is_dir =
     \<lparr> ORG_DIR = first_existing_dir is_dir org_candidates,
       SERVICES_DIR = first_existing_dir is_dir services_candidates,
       REVIEWS_DIR = first_existing_dir is_dir reviews_candidates,
       FAQ_DIR = first_existing_dir is_dir faq_candidates,
       HELP_DIR = first_existing_dir is_dir help_candidates,
       LOCATIONS_DIR = first_existing_dir is_dir locations_candidates,
       LLM_DATA_DIR = first_existing_dir is_dir llm_data_candidates \<rparr>"

text \<open>\<^verbatim>\<open>if X_DIR:\<close> holds for a non-empty name only.\<close>

definition dir_set :: "string option \<Rightarrow> string option" where
  "dir_set x = (case x of None \<Rightarrow> None | Some d \<Rightarrow> (if d = [] then None else Some d))"

definition data_exts :: "string list" where
  "data_exts = [''.json'', ''.yaml'', ''.yml'']"

definition normalize_records :: "pyval \<Rightarrow> pyval list" where
  "normalize_records payload =
     (case payload of
        PList xs \<Rightarrow> xs
      | PDict d \<Rightarrow>
          (case dget d ''locations'' of
             PList xs \<Rightarrow> xs
           | _ \<Rightarrow>
          (case dget d ''services'' of
             PList xs \<Rightarrow> xs
           | _ \<Rightarrow>
          (case dget d ''faqs'' of
             PList xs \<Rightarrow> xs
           | _ \<Rightarrow> [payload])))
      | _ \<Rightarrow> [])"

section \<open>Organization meta and the HTML shell\<close>

text \<open>The branding fields of \<^verbatim>\<open>load_org_meta\<close>. A field that is \<^verbatim>\<open>None\<close> in the source is
  the empty string here: every reader of these fields treats the two alike.\<close>

record org_meta =
  meta_name :: string
  meta_favicon :: string
  meta_logo :: string
  meta_website :: string

text \<open>The loop over the sorted names of the organization folder: the first record of
  the first data file that yields any.\<close>

fun first_org_record :: "env \<Rightarrow> string \<Rightarrow> string list \<Rightarrow> pyval option" where
  "first_org_record E d [] = None"
| "first_org_record E d (fn # fns) =
     (if endswith_any (lower fn) data_exts
      then (case records E (join_path d fn) of
              [] \<Rightarrow> first_org_record E d fns
            | r # _ \<Rightarrow> Some r)
      else first_org_record E d fns)"

text \<open>\<^verbatim>\<open>s.split("/", 1)[-1]\<close>\<close>

definition after_first_slash :: "string \<Rightarrow> string" where
  "after_first_slash s =
     (if CHR ''/'' \<in> set s then tl (dropWhile (\<lambda>c. c \<noteq> CHR ''/'') s) else s)"

definition default_site_name :: "env \<Rightarrow> string" where
  "default_site_name E =
     (case github_repository E of
        None \<Rightarrow> ''Site''
      | Some repo_slug \<Rightarrow>
          (if repo_slug = [] then ''Site''
           else title_case (replace_chr CHR ''-'' '' '' (after_first_slash repo_slug))))"

definition meta_of_org :: "env \<Rightarrow> pyval option \<Rightarrow> org_meta" where
  "meta_of_org E org_obj =
     (let meta =
        (case org_obj of
           Some (PDict o') \<Rightarrow>
             \<lparr> meta_name = first_nonempty E [dget o' ''entity_name'', dget o' ''name'',
                   dget o' ''legal_name'', dget o' ''brand'', dget o' ''site_title''],
               meta_favicon = first_nonempty E [dget o' ''favicon'', dget o' ''favicon_url''],
               meta_logo = first_nonempty E [dget o' ''logo_url'', dget o' ''logo''],
               meta_website = first_nonempty E [dget o' ''website'', dget o' ''url''] \<rparr>
         | _ \<Rightarrow> \<lparr> meta_name = [], meta_favicon = [], meta_logo = [], meta_website = [] \<rparr>)
      in if meta_name meta = [] then meta \<lparr> meta_name := default_site_name E \<rparr> else meta)"

definition load_org_meta :: "env \<Rightarrow> dirs \<Rightarrow> exc + org_meta" where
  "load_org_meta E D =
     (case dir_set (ORG_DIR D) of
        None \<Rightarrow> Inr (meta_of_org E None)
      | Some d \<Rightarrow>
          (case listdir E d of
             Inl e \<Rightarrow> Inl e
           | Inr names \<Rightarrow> Inr (meta_of_org E (first_org_record E d (sort names)))))"

definition generate_nav :: string where
  \<open>generate_nav =
        ''\<newline>'' @
        ''    <nav style="background: #2c3e50; padding: 1rem; margin-bottom: 2rem;">\<newline>'' @
        ''        <ul style="list-style: none; display: flex; gap: 2rem; margin: 0; padding: 0; flex-wrap: wrap; justify-content: center;">\<newline>'' @
        ''            <li><a href="index.html" style="color: white; text-decoration: none;">Home</a></li>\<newline>'' @
        ''            <li><a href="about.html" style="color: white; text-decoration: none;">About</a></li>\<newline>'' @
        ''            <li><a href="services.html" style="color: white; text-decoration: none;">Services</a></li>\<newline>'' @
        ''            <li><a href="awards.html" style="color: white; text-decoration: none;">Awards</a></li>\<newline>'' @
        ''            <li><a href="testimonials.html" style="color: white; text-decoration: none;">Testimonials</a></li>\<newline>'' @
        ''            <li><a href="faqs.html" style="color: white; text-decoration: none;">FAQs</a></li>\<newline>'' @
        ''            <li><a href="help.html" style="color: white; text-decoration: none;">Help</a></li>\<newline>'' @
        ''            <li><a href="contact.html" style="color: white; text-decoration: none;">Contact</a></li>\<newline>'' @
        ''        </ul>\<newline>'' @
        ''    </nav>\<newline>'' @
        ''    ''\<close>

text \<open>The time the page is rendered at: \<^verbatim>\<open>datetime.now().year\<close> and
  \<^verbatim>\<open>datetime.utcnow().strftime('%Y-%m-%d %H:%M UTC')\<close>.\<close>

record clock =
  year :: int
  utc_stamp :: string

definition em_dash :: string where
  "em_dash = [CHR 0xE2, CHR 0x80, CHR 0x94]"

definition page_links_and_style :: string where
  \<open>page_links_and_style =
        ''">\<newline>'' @
        ''    <link rel="icon" type="image/png" sizes="32x32" href="icons/favicon-32.png">\<newline>'' @
        ''    <link rel="icon" type="image/png" sizes="16x16" href="icons/favicon-16.png">\<newline>'' @
        ''    <link rel="apple-touch-icon" sizes="180x180" href="icons/apple-touch-icon.png">\<newline>'' @
        ''    <link rel="manifest" href="site.webmanifest">\<newline>'' @
        ''    <style>\<newline>'' @
        ''        body { font-family: -apple-system, BlinkMacSystemFont, sans-serif; max-width: 900px; margin: 0 auto; padding: 20px; line-height: 1.7; }\<newline>'' @
        ''        h1, h2, h3 { color: #2c3e50; }\<newline>'' @
        ''        a { color: #3498db; text-decoration: none; }\<newline>'' @
        ''        a:hover { text-decoration: underline; }\<newline>'' @
        ''        img { max-width: 100%; height: auto; }\<newline>'' @
        ''        .page-header { background: #ecf0f1; padding: 2rem; border-radius: 8px; margin-bottom: 2rem; text-align: center; }\<newline>'' @
        ''        .card { border: 1px solid #eee; padding: 1.5rem; border-radius: 8px; margin: 2rem 0; }\<newline>'' @
        ''        .badge { background: #3498db; color: white; padding: 0.25rem 0.5rem; border-radius: 4px; font-size: 0.9em; }\<newline>'' @
        ''        .muted { color: #6b7280; }\<newline>'' @
        ''        code { background: #f3f4f6; padding: 0.1rem 0.25rem; border-radius: 4px; }\<newline>'' @
        ''    </style>\<newline>'' @
        ''</head>\<newline>'' @
        ''<body>\<newline>'' @
        ''    ''\<close>

text \<open>The page up to the inserted content, then the text between the content and the
  line with the time, then that line, then the rest.\<close>

definition page_top :: "org_meta \<Rightarrow> string \<Rightarrow> string" where
  \<open>page_top org title =
     (let site_name = (if meta_name org \<noteq> [] then meta_name org else ''Site'');
          page_title = (if title \<noteq> []
                        then escape_html_str site_name @ '' '' @ em_dash @ '' '' @ escape_html_str title
                        else escape_html_str site_name);
          favicon_href = (if meta_favicon org \<noteq> [] then meta_favicon org else ''favicon.ico'');
          theme_color = ''#2c3e50''
      in
        ''<!DOCTYPE html>\<newline>'' @
        ''<html lang="en">\<newline>'' @
        ''<head>\<newline>'' @
        ''    <meta charset="UTF-8">\<newline>'' @
        ''    <title>'' @ page_title @ ''</title>\<newline>'' @
        ''    <meta name="application-name" content="'' @ escape_html_str site_name @ ''">\<newline>'' @
        ''    <meta name="viewport" content="width=device-width, initial-scale=1.0">\<newline>'' @
        ''    <meta name="theme-color" content="'' @ theme_color @ ''">\<newline>'' @
        ''    <link rel="icon" href="'' @ escape_html_str favicon_href @
        page_links_and_style @ generate_nav @ ''\<newline>'' @
        ''    <div class="page-header">\<newline>'' @
        ''        <h1>'' @ escape_html_str (if title \<noteq> [] then title else site_name) @ ''</h1>\<newline>'' @
        ''    </div>\<newline>'' @
        ''    '')\<close>

definition page_footer_open :: string where
  \<open>page_footer_open =
        ''\<newline>'' @
        ''    <footer style="margin-top: 4rem; padding-top: 2rem; border-top: 1px solid #eee; text-align: center; color: #7f8c8d;">\<newline>''\<close>

definition footer_stamp :: "clock \<Rightarrow> string" where
  \<open>footer_stamp clk =
        ''        <p>'' @ [CHR 0xC2, CHR 0xA9] @ '' '' @ str_int (year clk) @ '' '' @ em_dash @
        '' Auto-generated from structured data. Last updated: '' @ utc_stamp clk @ ''</p>\<newline>''\<close>

definition page_bottom :: string where
  \<open>page_bottom =
        ''    </footer>\<newline>'' @
        ''</body>\<newline>'' @
        ''</html>''\<close>

definition generate_page :: "env \<Rightarrow> dirs \<Rightarrow> clock \<Rightarrow> string \<Rightarrow> string \<Rightarrow> exc + string" where
  "generate_page E D clk title content =
     (case load_org_meta E D of
        Inl e \<Rightarrow> Inl e
      | Inr org \<Rightarrow>
          Inr (page_top org title @ content @ page_footer_open @ footer_stamp clk @ page_bottom))"

definition placeholder :: "string \<Rightarrow> string \<Rightarrow> string" where
  \<open>placeholder title reason =
        ''\<newline>'' @
        ''    <div class="card">\<newline>'' @
        ''        <h2>'' @ escape_html_str title @ ''</h2>\<newline>'' @
        ''        <p class="muted">'' @ escape_html_str reason @ ''</p>\<newline>'' @
        ''    </div>\<newline>'' @
        ''    ''\<close>

section \<open>Writing a page\<close>

text \<open>
  The files of the working directory that the program writes, by name. A renderer
  either returns or raises, and leaves the files as it changed them.
  \<^verbatim>\<open>with open(name, "w") as f: f.write(generate_page(title, content))\<close> creates or empties
  the file before the page is built, so the file is left empty when building raises.
  Writing itself is taken to succeed.
\<close>

type_synonym files = "string \<Rightarrow> string option"

datatype outcome = Returned | Raised exc

definition write_page ::
  "env \<Rightarrow> dirs \<Rightarrow> clock \<Rightarrow> string \<Rightarrow> string \<Rightarrow> string \<Rightarrow> files \<Rightarrow> outcome \<times> files" where
  "write_page E D clk filename title content fs =
     (case generate_page E D clk title content of
        Inl e \<Rightarrow> (Raised e, fs(filename \<mapsto> []))
      | Inr page \<Rightarrow> (Returned, fs(filename \<mapsto> page)))"

section \<open>Loops that may raise\<close>

text \<open>\<^verbatim>\<open>for x in xs: items.extend(f(x))\<close> where \<^verbatim>\<open>f\<close> may raise: the first exception ends
  the loop. \<open>fold_exc\<close> is the same for a loop that updates several variables.\<close>

fun collect :: "('a \<Rightarrow> exc + 'b list) \<Rightarrow> 'a list \<Rightarrow> exc + 'b list" where
  "collect f [] = Inr []"
| "collect f (x # xs) =
     (case f x of
        Inl e \<Rightarrow> Inl e
      | Inr ys \<Rightarrow> (case collect f xs of Inl e \<Rightarrow> Inl e | Inr zs \<Rightarrow> Inr (ys @ zs)))"

fun fold_exc :: "('a \<Rightarrow> 's \<Rightarrow> exc + 's) \<Rightarrow> 'a list \<Rightarrow> 's \<Rightarrow> exc + 's" where
  "fold_exc f [] s = Inr s"
| "fold_exc f (x # xs) s = (case f x s of Inl e \<Rightarrow> Inl e | Inr s' \<Rightarrow> fold_exc f xs s')"

section \<open>Services page\<close>

definition service_title :: "env \<Rightarrow> (string \<times> pyval) list \<Rightarrow> string \<Rightarrow> string" where
  "service_title E svc fn =
     (let title_candidate = first_nonempty E [dget svc ''title'', dget svc ''service_name'', dget svc ''name''];
          title = title_candidate;
          title = (if is_placeholder_title (PStr title)
                   then (let kws = as_list E (dget svc ''keywords'')
                         in if kws \<noteq> [] then title_case (join '' / '' (take 2 kws)) else title)
                   else title);
          title = (if is_placeholder_title (PStr title) then title_from_filename fn else title)
      in title)"

definition service_card :: "env \<Rightarrow> (string \<times> pyval) list \<Rightarrow> string \<Rightarrow> string" where
  \<open>service_card E svc fn =
     (let title = service_title E svc fn;
          description = guess_description E svc;
          price = guess_price E svc;
          featured = truthy (por (dget svc ''featured'') (dget svc ''is_featured''));
          slug = por (dget svc ''slug'') (PStr (slugify title));
          badge = (if featured then ''<span class="badge">Featured</span>'' else []);
          bullets = bullet_points E svc;
          bullet_html = (if bullets \<noteq> []
                         then ''<ul>'' @ concat (map (\<lambda>b. ''<li>'' @ escape_html_str b @ ''</li>'') bullets) @ ''</ul>''
                         else [])
      in
        ''\<newline>'' @
        ''            <div class="card" id="'' @ escape_html slug @ ''">\<newline>'' @
        ''                <h2>'' @ escape_html_str title @ '' '' @ badge @ ''</h2>\<newline>'' @
        ''                '' @ (if description \<noteq> [] then ''<p>'' @ escape_html_str description @ ''</p>'' else []) @
        ''\<newline>'' @
        ''                '' @ bullet_html @ ''\<newline>'' @
        ''                <p><strong>Starting at:</strong> '' @ escape_html_str price @ ''</p>\<newline>'' @
        ''                <a href="#'' @ str_py E slug @
        ''" style="display: inline-block; margin-top: 1rem;">'' @
        [CHR 0xF0, CHR 0x9F, CHR 0x94, CHR 0x97] @
        '' Permalink</a>\<newline>'' @
        ''            </div>\<newline>'' @
        ''            '')\<close>

definition expand_services :: "pyval list \<Rightarrow> pyval list" where
  "expand_services recs =
     concat (map (\<lambda>rec. case rec of
                     PDict d \<Rightarrow> (case dget d ''services'' of PList xs \<Rightarrow> xs | _ \<Rightarrow> [rec])
                   | _ \<Rightarrow> [rec]) recs)"

definition services_file_items :: "env \<Rightarrow> string \<Rightarrow> string \<Rightarrow> string list" where
  "services_file_items E d fn =
     (if \<not> endswith_any (lower fn) data_exts then []
      else let data = records E (join_path d fn) in
        if data = [] then []
        else concat (map (\<lambda>svc. case svc of PDict o' \<Rightarrow> [service_card E o' fn] | _ \<Rightarrow> [])
                         (expand_services data)))"

definition services_items :: "env \<Rightarrow> string \<Rightarrow> string list \<Rightarrow> string list" where
  "services_items E d names = concat (map (services_file_items E d) names)"

definition services_missing_text :: string where
  "services_missing_text = ''No services folder found yet. Add JSON/YAML files to schemas/services (or services/) to populate this page.''"

definition generate_services_page :: "env \<Rightarrow> dirs \<Rightarrow> clock \<Rightarrow> files \<Rightarrow> outcome \<times> files" where
  "generate_services_page E D clk fs =
     (case dir_set (SERVICES_DIR D) of
        None \<Rightarrow>
          write_page E D clk ''services.html'' ''Our Services''
            (placeholder ''Our Services'' services_missing_text) fs
      | Some d \<Rightarrow>
          (case listdir E d of
             Inl e \<Rightarrow> (Raised e, fs)
           | Inr names \<Rightarrow>
               (let items = services_items E d (sort names);
                    content = (if items \<noteq> [] then concat items
                               else placeholder ''Our Services'' ''No usable services found yet.'')
                in write_page E D clk ''services.html'' ''Our Services'' content fs)))"

section \<open>Awards page\<close>

definition award_title :: "env \<Rightarrow> (string \<times> pyval) list \<Rightarrow> string \<Rightarrow> string" where
  "award_title E obj filename =
     (let candidate = first_nonempty E
            [dget obj ''title'', dget obj ''award_name'', dget obj ''certification_name'',
             dget obj ''accreditation_name'', dget obj ''license_name'', dget obj ''name'',
             dget obj ''issuer'', dget obj ''organization'']
      in if is_placeholder_title (PStr candidate) then title_from_filename filename else candidate)"

definition award_card :: "env \<Rightarrow> (string \<times> pyval) list \<Rightarrow> string \<Rightarrow> string" where
  \<open>award_card E aw filepath =
     (let title = award_title E aw filepath;
          desc = first_nonempty E [dget aw ''description'', dget aw ''summary'', dget aw ''details'', dget aw ''notes''];
          date = first_nonempty E [dget aw ''date'', dget aw ''awarded_date'', dget aw ''year''];
          org = first_nonempty E [dget aw ''issuer'', dget aw ''awarding_body'', dget aw ''organization''];
          extra = (if date \<noteq> [] then [''<strong>Date:</strong> '' @ escape_html_str date] else []) @
                  (if org \<noteq> [] then [''<strong>Issuer:</strong> '' @ escape_html_str org] else []);
          extra_html = join ''<br>'' extra
      in
        ''\<newline>'' @
        ''            <div class="card">\<newline>'' @
        ''                <h2>'' @ escape_html_str title @ ''</h2>\<newline>'' @
        ''                '' @ (if desc \<noteq> [] then ''<p>'' @ escape_html_str desc @ ''</p>'' else []) @
        ''\<newline>'' @
        ''                '' @ (if extra_html \<noteq> [] then ''<p>'' @ extra_html @ ''</p>'' else []) @
        ''\<newline>'' @
        ''            </div>\<newline>'' @
        ''            '')\<close>

text \<open>The awards loop tests the extension of the name as it is, without lower-casing.\<close>

definition awards_file_items :: "env \<Rightarrow> string \<Rightarrow> string \<Rightarrow> string list" where
  "awards_file_items E awards_dir file =
     (if \<not> endswith_any file data_exts then []
      else let filepath = join_path awards_dir file;
               data = records E filepath in
        if data = [] then []
        else concat (map (\<lambda>aw. case aw of PDict o' \<Rightarrow> [award_card E o' filepath] | _ \<Rightarrow> []) data))"

definition awards_items :: "env \<Rightarrow> string \<Rightarrow> string list \<Rightarrow> string list" where
  "awards_items E awards_dir names = concat (map (awards_file_items E awards_dir) names)"

definition awards_missing_text :: string where
  "awards_missing_text = ''<p>No awards have been published yet.</p>''"

definition generate_awards_page :: "env \<Rightarrow> dirs \<Rightarrow> clock \<Rightarrow> files \<Rightarrow> outcome \<times> files" where
  "generate_awards_page E D clk fs =
     (let awards_dir = ''schemas/awards'' in
      if \<not> path_exists E awards_dir
      then write_page E D clk ''awards.html'' ''Awards'' awards_missing_text fs
      else (case listdir E awards_dir of
              Inl e \<Rightarrow> (Raised e, fs)
            | Inr names \<Rightarrow>
                (let items = awards_items E awards_dir (sort names);
                     content = (if items = [] then ''<p>No awards have been published yet.</p>''
                                else concat items)
                 in write_page E D clk ''awards.html'' ''Awards'' content fs)))"

section \<open>Testimonials page\<close>

text \<open>\<^verbatim>\<open>float(v)\<close> and \<^verbatim>\<open>int(x)\<close> for a float \<^verbatim>\<open>x\<close>. An integer that rounds to a value beyond
  the largest float raises \<^verbatim>\<open>OverflowError\<close>; \<^verbatim>\<open>int\<close> truncates towards zero.\<close>

definition to_float :: "env \<Rightarrow> pyval \<Rightarrow> exc + pyfloat" where
  "to_float E v =
     (case v of
        PBool b \<Rightarrow> Inr (Fin (if b then 1 else 0))
      | PInt i \<Rightarrow> (if \<bar>i\<bar> < 2 ^ 1024 - 2 ^ 970 then Inr (Fin (of_int i)) else Inl OverflowError)
      | PFloat f \<Rightarrow> Inr f
      | PStr s \<Rightarrow> (case float_of_str E s of None \<Rightarrow> Inl ValueError | Some f \<Rightarrow> Inr f)
      | _ \<Rightarrow> Inl TypeError)"

definition int_of_float :: "pyfloat \<Rightarrow> exc + int" where
  "int_of_float f =
     (case f of
        Fin r \<Rightarrow> Inr (if 0 \<le> r then \<lfloor>r\<rfloor> else \<lceil>r\<rceil>)
      | NaN \<Rightarrow> Inl ValueError
      | _ \<Rightarrow> Inl OverflowError)"

definition star_filled :: string where
  "star_filled = [CHR 0xE2, CHR 0x98, CHR 0x85]"

definition star_empty :: string where
  "star_empty = [CHR 0xE2, CHR 0x98, CHR 0x86]"

text \<open>\<^verbatim>\<open>s * n\<close>: no copy at all for a negative \<^verbatim>\<open>n\<close>.\<close>

definition repeat_str :: "string \<Rightarrow> int \<Rightarrow> string" where
  "repeat_str s n = concat (replicate (nat n) s)"

definition review_rating :: "env \<Rightarrow> (string \<times> pyval) list \<Rightarrow> int" where
  "review_rating E review =
     (let given = (case map_of review ''rating'' of None \<Rightarrow> PInt 5 | Some v \<Rightarrow> v);
          rating = (case to_float E given of
                      Inl e \<Rightarrow> 5
                    | Inr f \<Rightarrow> (case int_of_float f of Inl e \<Rightarrow> 5 | Inr i \<Rightarrow> i))
      in max 1 (min 5 rating))"

definition star_display :: "int \<Rightarrow> string" where
  "star_display rating = repeat_str star_filled rating @ repeat_str star_empty (5 - rating)"

definition review_card :: "env \<Rightarrow> (string \<times> pyval) list \<Rightarrow> string" where
  \<open>review_card E review =
     (let author = first_nonempty E [dget review ''customer_name'', dget review ''author'', PStr ''Anonymous''];
          entity = first_nonempty E [dget review ''entity_name'', PStr []];
          quote = first_nonempty E [dget review ''review_body'', dget review ''quote'', dget review ''review_title'',
                                    PStr ''No review text provided.''];
          rating = review_rating E review;
          date = first_nonempty E [dget review ''date'', PStr []]
      in
        ''\<newline>'' @
        ''            <blockquote class="card" style="font-style: italic;">\<newline>'' @
        ''                <p>'' @ [CHR 0xE2, CHR 0x80, CHR 0x9C] @ escape_html_str quote @
        [CHR 0xE2, CHR 0x80, CHR 0x9D] @ ''</p>\<newline>'' @
        ''                <footer style="margin-top: 1rem; font-style: normal;">\<newline>'' @
        ''                    '' @ em_dash @ '' '' @ escape_html_str author @
        (if entity \<noteq> [] then '', '' @ escape_html_str entity else []) @ ''\<newline>'' @
        ''                    '' @
        (if date \<noteq> [] then ''<br/><small>'' @ escape_html_str date @ ''</small>'' else []) @
        ''\<newline>'' @
        ''                </footer>\<newline>'' @
        ''                <div style="margin-top: 0.5rem; color: #f39c12;">'' @
        star_display rating @ ''</div>\<newline>'' @
        ''            </blockquote>\<newline>'' @
        ''            '')\<close>

definition reviews_file_items :: "env \<Rightarrow> string \<Rightarrow> string \<Rightarrow> string list" where
  "reviews_file_items E d fn =
     (if \<not> endswith_any (lower fn) data_exts then []
      else let data = records E (join_path d fn) in
        if data = [] then []
        else concat (map (\<lambda>review. case review of PDict o' \<Rightarrow> [review_card E o'] | _ \<Rightarrow> []) data))"

definition reviews_items :: "env \<Rightarrow> string \<Rightarrow> string list \<Rightarrow> string list" where
  "reviews_items E d names = concat (map (reviews_file_items E d) names)"

definition reviews_missing_text :: string where
  "reviews_missing_text = ''No reviews folder found yet. Add JSON/YAML files to schemas/reviews (or reviews/) to populate this page.''"

definition generate_testimonials_page :: "env \<Rightarrow> dirs \<Rightarrow> clock \<Rightarrow> files \<Rightarrow> outcome \<times> files" where
  "generate_testimonials_page E D clk fs =
     (case dir_set (REVIEWS_DIR D) of
        None \<Rightarrow>
          write_page E D clk ''testimonials.html'' ''Testimonials''
            (placeholder ''Testimonials'' reviews_missing_text) fs
      | Some d \<Rightarrow>
          (case listdir E d of
             Inl e \<Rightarrow> (Raised e, fs)
           | Inr names \<Rightarrow>
               (let items = reviews_items E d (sort names);
                    content = (if items \<noteq> [] then concat items
                               else placeholder ''Testimonials'' ''No usable reviews found yet.'')
                in write_page E D clk ''testimonials.html'' ''Testimonials'' content fs)))"

section \<open>FAQ page\<close>

text \<open>\<^verbatim>\<open>(v or "").strip()\<close>: a true value that is not a string has no \<^verbatim>\<open>strip\<close>.\<close>

definition text_field :: "pyval \<Rightarrow> exc + string" where
  "text_field v = (case por v (PStr []) of PStr s \<Rightarrow> Inr (strip s) | _ \<Rightarrow> Inl AttributeError)"

definition faq_card :: "string \<Rightarrow> string \<Rightarrow> string" where
  \<open>faq_card question answer =
        ''\<newline>'' @
        ''            <div class="card">\<newline>'' @
        ''                <h3 style="margin: 0 0 0.5rem 0;">'' @ escape_html_str question @ ''</h3>\<newline>'' @
        ''                <p>'' @ escape_html_str answer @ ''</p>\<newline>'' @
        ''            </div>\<newline>'' @
        ''            ''\<close>

definition faq_record :: "pyval \<Rightarrow> exc + string list" where
  "faq_record item =
     (case item of
        PDict d \<Rightarrow>
          (case text_field (dget d ''question'') of
             Inl e \<Rightarrow> Inl e
           | Inr question \<Rightarrow>
               (case text_field (dget d ''answer'') of
                  Inl e \<Rightarrow> Inl e
                | Inr answer \<Rightarrow> Inr (if question = [] then [] else [faq_card question answer])))
      | _ \<Rightarrow> Inr [])"

definition faq_file_items :: "env \<Rightarrow> string \<Rightarrow> string \<Rightarrow> exc + string list" where
  "faq_file_items E d fn =
     (if \<not> endswith_any (lower fn) data_exts then Inr []
      else let data = records E (join_path d fn) in
        if data = [] then Inr [] else collect faq_record data)"

definition faq_items :: "env \<Rightarrow> string \<Rightarrow> string list \<Rightarrow> exc + string list" where
  "faq_items E d names = collect (faq_file_items E d) names"

definition faq_missing_text :: string where
  "faq_missing_text = ''No FAQ folder found yet. Add JSON/YAML files to schemas/faqs (or faq-schemas/) to populate this page.''"

definition generate_faq_page :: "env \<Rightarrow> dirs \<Rightarrow> clock \<Rightarrow> files \<Rightarrow> outcome \<times> files" where
  "generate_faq_page E D clk fs =
     (case dir_set (FAQ_DIR D) of
        None \<Rightarrow>
          write_page E D clk ''faqs.html'' ''Frequently Asked Questions''
            (placeholder ''FAQs'' faq_missing_text) fs
      | Some d \<Rightarrow>
          (case listdir E d of
             Inl e \<Rightarrow> (Raised e, fs)
           | Inr names \<Rightarrow>
               (case faq_items E d (sort names) of
                  Inl e \<Rightarrow> (Raised e, fs)
                | Inr items \<Rightarrow>
                    (let content = (if items \<noteq> [] then concat items
                                    else placeholder ''FAQs'' ''No usable FAQs found yet.'')
                     in write_page E D clk ''faqs.html'' ''Frequently Asked Questions'' content fs))))"

section \<open>Contact page\<close>

text \<open>\<^verbatim>\<open>(v or {}).get(k)\<close>: a true value that is not a mapping has no \<^verbatim>\<open>get\<close>.\<close>

definition get_in :: "pyval \<Rightarrow> string \<Rightarrow> exc + pyval" where
  "get_in v k =
     (if truthy v then (case v of PDict d \<Rightarrow> Inr (dget d k) | _ \<Rightarrow> Inl AttributeError)
      else Inr PNone)"

text \<open>\<^verbatim>\<open>a or (v or {}).get(k)\<close>: the right operand is evaluated when \<^verbatim>\<open>a\<close> is false.\<close>

definition or_get_in :: "pyval \<Rightarrow> pyval \<Rightarrow> string \<Rightarrow> exc + pyval" where
  "or_get_in a v k = (if truthy a then Inr a else get_in v k)"

definition is_number :: "pyval \<Rightarrow> bool" where
  "is_number v = (case v of PBool b \<Rightarrow> True | PInt i \<Rightarrow> True | PFloat f \<Rightarrow> True | _ \<Rightarrow> False)"

text \<open>\<^verbatim>\<open>urllib.parse.quote_plus\<close>: letters, digits and \<^verbatim>\<open>_.-~\<close> are kept, a space becomes
  \<^verbatim>\<open>+\<close>, every other byte becomes \<^verbatim>\<open>%XX\<close>.\<close>

definition hex_digit :: "nat \<Rightarrow> char" where
  "hex_digit n = (if n < 10 then char_of (48 + n) else char_of (55 + n))"

definition quote_plus :: "string \<Rightarrow> string" where
  "quote_plus s =
     concat (map (\<lambda>c.
        if c = CHR '' '' then ''+''
        else if is_upper c \<or> is_lower c \<or> is_digit c \<or> c \<in> set ''_.-~'' then [c]
        else [CHR ''%'', hex_digit ((of_char c :: nat) div 16), hex_digit ((of_char c :: nat) mod 16)]) s)"

definition coordinate_map_url :: "string \<Rightarrow> string \<Rightarrow> string" where
  "coordinate_map_url lat lng = ''https://www.google.com/maps?q='' @ lat @ '','' @ lng @ ''&z=15&output=embed''"

definition address_map_url :: "string \<Rightarrow> string" where
  "address_map_url address = ''https://www.google.com/maps?q='' @ quote_plus address @ ''&output=embed''"

definition map_embed_src :: "env \<Rightarrow> (string \<times> pyval) list \<Rightarrow> string \<Rightarrow> exc + string" where
  "map_embed_src E loc address =
     (case or_get_in (dget loc ''latitude'') (dget loc ''geo'') ''latitude'' of
        Inl e \<Rightarrow> Inl e
      | Inr lat \<Rightarrow>
     (case or_get_in (dget loc ''longitude'') (dget loc ''geo'') ''longitude'' of
        Inl e \<Rightarrow> Inl e
      | Inr lng \<Rightarrow>
          (if is_number lat \<and> is_number lng
           then Inr (coordinate_map_url (str_py E lat) (str_py E lng))
           else let map_url = first_nonempty E [dget loc ''map_embed_url'', dget loc ''map'', dget loc ''map_iframe''];
                    gmaps = first_nonempty E [dget loc ''google_maps_url'', dget loc ''maps_url'', dget loc ''map_url'']
                in if map_url \<noteq> [] then Inr map_url
                   else if gmaps \<noteq> [] then Inr gmaps
                   else if address \<noteq> [] then Inr (address_map_url address)
                   else Inr [])))"

text \<open>\<^verbatim>\<open>" ".join([p for p in [line1, line2, city_state, zipc] if p]).strip()\<close> where
  \<^verbatim>\<open>city_state\<close> joins the city and the state that are there with a comma.\<close>

definition address_line :: "string \<Rightarrow> string \<Rightarrow> string \<Rightarrow> string \<Rightarrow> string \<Rightarrow> string" where
  "address_line line1 line2 city state zipc =
     (let city_state = (if city \<noteq> [] \<or> state \<noteq> []
                        then join '', '' (filter (\<lambda>p. p \<noteq> []) [city, state]) else []);
          parts = [line1, line2, city_state, zipc]
      in strip (join '' '' (filter (\<lambda>p. p \<noteq> []) parts)))"

definition format_address :: "env \<Rightarrow> (string \<times> pyval) list \<Rightarrow> string" where
  "format_address E loc =
     (case dget loc ''address'' of
        PStr a \<Rightarrow>
          (if strip a \<noteq> [] then strip a
           else address_line
                  (first_nonempty E [dget loc ''address_street'', dget loc ''streetAddress'', dget loc ''street''])
                  (first_nonempty E [dget loc ''address2'', dget loc ''suite''])
                  (first_nonempty E [dget loc ''address_city'', dget loc ''city''])
                  (first_nonempty E [dget loc ''address_state'', dget loc ''state'', dget loc ''addressRegion''])
                  (first_nonempty E [dget loc ''address_postal_code'', dget loc ''postalCode'', dget loc ''zip'']))
      | PDict addr \<Rightarrow>
          address_line
            (first_nonempty E [dget addr ''streetAddress'', dget addr ''address1'', dget addr ''addressLine1''])
            (first_nonempty E [dget addr ''address2'', dget addr ''addressLine2'', dget addr ''suite''])
            (first_nonempty E [dget addr ''addressLocality'', dget addr ''city''])
            (first_nonempty E [dget addr ''addressRegion'', dget addr ''state''])
            (first_nonempty E [dget addr ''postalCode'', dget addr ''zip'', dget addr ''zipCode''])
      | _ \<Rightarrow>
          address_line
            (first_nonempty E [dget loc ''address_street'', dget loc ''streetAddress'', dget loc ''street''])
            (first_nonempty E [dget loc ''address2'', dget loc ''suite''])
            (first_nonempty E [dget loc ''address_city'', dget loc ''city''])
            (first_nonempty E [dget loc ''address_state'', dget loc ''state'', dget loc ''addressRegion''])
            (first_nonempty E [dget loc ''address_postal_code'', dget loc ''postalCode'', dget loc ''zip'']))"

definition en_dash :: string where
  "en_dash = [CHR 0xE2, CHR 0x80, CHR 0x93]"

text \<open>One row of the opening hours. \<^verbatim>\<open>_first_nonempty\<close> returns a string, so the test of the
  day for a list never holds; \<^verbatim>\<open>day.rsplit("/", 1)[-1]\<close> is what follows the last slash.\<close>

definition hours_row :: "env \<Rightarrow> pyval \<Rightarrow> string list" where
  "hours_row E r =
     (case r of
        PDict d \<Rightarrow>
          (let day = first_nonempty E [dget d ''dayOfWeek'', dget d ''day'', dget d ''weekday''];
               day = (if CHR ''/'' \<in> set day then basename day else day);
               opens = first_nonempty E [dget d ''opens'', dget d ''openingTime''];
               closes = first_nonempty E [dget d ''closes'', dget d ''closingTime'']
           in if day \<noteq> [] \<and> (opens \<noteq> [] \<or> closes \<noteq> [])
              then [day @ '': '' @ (if opens \<noteq> [] then opens else em_dash) @ '' '' @ en_dash @ '' '' @
                    (if closes \<noteq> [] then closes else em_dash)]
              else [])
      | _ \<Rightarrow> [])"

definition extract_hours :: "env \<Rightarrow> (string \<times> pyval) list \<Rightarrow> string" where
  "extract_hours E loc =
     (let hours = first_nonempty E [dget loc ''hours'', dget loc ''openingHours'',
                                    dget loc ''opening_hours'', dget loc ''business_hours'']
      in if hours \<noteq> [] then hours
         else (case por (dget loc ''openingHoursSpecification'') (dget loc ''opening_hours_specification'') of
                 PList spec \<Rightarrow>
                   (let rows = concat (map (hours_row E) spec)
                    in if rows \<noteq> [] then join ''; '' rows else [])
               | _ \<Rightarrow> []))"

text \<open>The variables of the loop of \<^verbatim>\<open>generate_contact_page\<close>.\<close>

record contact_acc =
  items :: "string list"
  first_name :: string
  first_phone :: string
  first_email :: string
  files_seen :: nat
  records_seen :: nat

definition map_iframe :: "string \<Rightarrow> string" where
  \<open>map_iframe map_src =
        ''\<newline>'' @
        ''                <div style="margin-top: 1rem;">\<newline>'' @
        ''                    <iframe src="'' @ escape_html_str map_src @ ''" width="100%" height="320"\<newline>'' @
        ''                            style="border:0; border-radius: 8px;" allowfullscreen loading="lazy"></iframe>\<newline>'' @
        ''                </div>\<newline>'' @
        ''                ''\<close>

definition link_single_quoted :: "string \<Rightarrow> string" where
  \<open>link_single_quoted s =
        ''<a href='' @ [CHR 0x27] @ escape_html_str s @ ''\' target=\'_blank\' rel=\'nofollow\'>'' @
        escape_html_str s @ ''</a>''\<close>

definition location_block ::
  "string \<Rightarrow> string \<Rightarrow> string \<Rightarrow> string \<Rightarrow> string \<Rightarrow> string list \<Rightarrow> string \<Rightarrow> string" where
  \<open>location_block name person addr hours site socials map_src =
        ''<div class=\'card\'>'' @
        ''<h3>'' @ escape_html_str name @ ''</h3><p>'' @
        (if person \<noteq> [] then ''<strong>Contact:</strong> '' @ escape_html_str person @ ''<br>'' else []) @
        (if addr \<noteq> [] then ''<strong>Address:</strong> '' @ escape_html_str addr @ ''<br>'' else []) @
        (if hours \<noteq> [] then ''<strong>Hours:</strong> '' @ escape_html_str hours @ ''<br>'' else []) @
        (if site \<noteq> [] then ''<strong>Website:</strong> '' @ link_single_quoted site @ ''<br>'' else []) @
        ''</p>'' @
        (if socials \<noteq> []
         then ''<p><strong>Find us:</strong> '' @
              join ('' '' @ [CHR 0xE2, CHR 0x80, CHR 0xA2] @ '' '') (map link_single_quoted (take 8 socials)) @
              ''</p>''
         else []) @
        (if map_src \<noteq> [] then map_iframe map_src else []) @
        ''</div>''\<close>

definition contact_record :: "env \<Rightarrow> pyval \<Rightarrow> contact_acc \<Rightarrow> exc + contact_acc" where
  "contact_record E rec acc =
     (case rec of
        PDict loc \<Rightarrow>
          (let acc = acc \<lparr> records_seen := records_seen acc + 1 \<rparr>;
               name = first_nonempty E [dget loc ''entity_name'', dget loc ''location_name'',
                                        dget loc ''name'', PStr ''Location'']
           in case get_in (dget loc ''contactPoint'') ''telephone'' of
                Inl e \<Rightarrow> Inl e
              | Inr cp_phone \<Rightarrow>
             (let phone = first_nonempty E [dget loc ''phone'', dget loc ''telephone'', cp_phone]
              in case get_in (dget loc ''contactPoint'') ''email'' of
                Inl e \<Rightarrow> Inl e
              | Inr cp_email \<Rightarrow>
             (let email = first_nonempty E [dget loc ''email'', cp_email];
                  person = first_nonempty E [dget loc ''contact_person'', dget loc ''contact'',
                                             dget loc ''contact_name''];
                  addr = format_address E loc;
                  hours = extract_hours E loc;
                  site = first_nonempty E [dget loc ''website'', dget loc ''url'', dget loc ''homepage''];
                  socials = as_list E (por (dget loc ''sameAs'') (por (dget loc ''same_as'')
                              (por (dget loc ''social'') (dget loc ''social_links''))))
              in case map_embed_src E loc addr of
                   Inl e \<Rightarrow> Inl e
                 | Inr map_src \<Rightarrow>
                     (let acc = (if first_name acc = [] then acc \<lparr> first_name := name \<rparr> else acc);
                          acc = (if first_phone acc = [] \<and> phone \<noteq> []
                                 then acc \<lparr> first_phone := phone \<rparr> else acc);
                          acc = (if first_email acc = [] \<and> email \<noteq> []
                                 then acc \<lparr> first_email := email \<rparr> else acc)
                      in Inr (acc \<lparr> items := items acc @
                                [location_block name person addr hours site socials map_src] \<rparr>)))))
      | _ \<Rightarrow> Inr acc)"

definition contact_file :: "env \<Rightarrow> string \<Rightarrow> string \<Rightarrow> contact_acc \<Rightarrow> exc + contact_acc" where
  "contact_file E d fname acc =
     (if \<not> endswith_any (lower fname) data_exts then Inr acc
      else let acc = acc \<lparr> files_seen := files_seen acc + 1 \<rparr>;
               data = records E (join_path d fname) in
        if data = [] then Inr acc
        else fold_exc (contact_record E) (normalize_records (PList data)) acc)"

definition quick_contact :: "contact_acc \<Rightarrow> string" where
  \<open>quick_contact acc =
     (if first_name acc \<noteq> [] \<or> first_phone acc \<noteq> [] \<or> first_email acc \<noteq> []
      then ''<div class=\'card\'><h2>Quick Contact</h2>'' @
           (if first_name acc \<noteq> []
            then ''<p><strong>'' @ escape_html_str (first_name acc) @ ''</strong></p>'' else []) @
           (if first_phone acc \<noteq> []
            then ''<p><strong>Phone:</strong> <a href=\'tel:'' @ escape_html_str (first_phone acc) @
                 ''\'>'' @ escape_html_str (first_phone acc) @ ''</a></p>'' else []) @
           (if first_email acc \<noteq> []
            then ''<p><strong>Email:</strong> <a href=\'mailto:'' @ escape_html_str (first_email acc) @
                 ''\'>'' @ escape_html_str (first_email acc) @ ''</a></p>'' else []) @
           ''</div>''
      else [])\<close>

definition contact_intro :: string where
  \<open>contact_intro = ''<p>We'' @ [CHR 0xE2, CHR 0x80, CHR 0x99] @
     ''d love to hear from you. Reach out using the details below or visit us at our offices.</p>''\<close>

definition contact_content :: "contact_acc \<Rightarrow> string" where
  "contact_content acc =
     contact_intro @ quick_contact acc @
     (if items acc \<noteq> [] then concat (items acc)
      else placeholder ''Locations''
             (''No usable locations found (scanned '' @ str_int (int (files_seen acc)) @ '' files, '' @
              str_int (int (records_seen acc)) @ '' records).''))"

definition locations_missing_text :: string where
  "locations_missing_text = ''No locations folder found yet. Add location JSON/YAML files to your locations folder (or schemas/locations) to populate this page.''"

definition generate_contact_page :: "env \<Rightarrow> dirs \<Rightarrow> clock \<Rightarrow> files \<Rightarrow> outcome \<times> files" where
  "generate_contact_page E D clk fs =
     (case dir_set (LOCATIONS_DIR D) of
        None \<Rightarrow>
          write_page E D clk ''contact.html'' ''Contact Us''
            (placeholder ''Contact Us'' locations_missing_text) fs
      | Some d \<Rightarrow>
          (case listdir E d of
             Inl e \<Rightarrow> (Raised e, fs)
           | Inr names \<Rightarrow>
               (case fold_exc (contact_file E d) (sort names)
                       \<lparr> items = [], first_name = [], first_phone = [], first_email = [],
                         files_seen = 0, records_seen = 0 \<rparr> of
                  Inl e \<Rightarrow> (Raised e, fs)
                | Inr acc \<Rightarrow> write_page E D clk ''contact.html'' ''Contact Us'' (contact_content acc) fs)))"

section \<open>Index page\<close>

text \<open>\<^verbatim>\<open>s.replace(old, new)\<close> for a non-empty \<^verbatim>\<open>old\<close>, left to right without overlap. The
  counter is the number of characters of the last match still to be passed over.\<close>

fun replace_from :: "nat \<Rightarrow> string \<Rightarrow> string \<Rightarrow> string \<Rightarrow> string" where
  "replace_from k old new [] = []"
| "replace_from k old new (c # cs) =
     (if 0 < k then replace_from (k - 1) old new cs
      else if old \<noteq> [] \<and> startswith (c # cs) old
      then new @ replace_from (length old - 1) old new cs
      else c # replace_from 0 old new cs)"

definition replace_str :: "string \<Rightarrow> string \<Rightarrow> string \<Rightarrow> string" where
  "replace_str old new s = replace_from 0 old new s"

definition index_links :: "(string \<times> string) list" where
  "index_links =
     [(''About Us'', ''about.html''), (''Our Services'', ''services.html''),
      (''Testimonials'', ''testimonials.html''), (''FAQs'', ''faqs.html''),
      (''Help Center'', ''help.html''), (''Contact Us'', ''contact.html''),
      (''Browse All Files'', ''#files'')]"

definition quick_link :: "string \<times> string \<Rightarrow> string" where
  \<open>quick_link l =
     (case l of (name, url) \<Rightarrow>
        ''<li style="margin: 0.5rem 0;"><a href="'' @ url @
        ''" style="font-size: 1.1em; font-weight: 500;">'' @ escape_html_str name @ ''</a></li>'')\<close>

definition index_roots :: "string list" where
  "index_roots = [''schemas'', ''faq-schemas'', ''organization'', ''locations'', ''llm-data'']"

definition all_exts :: "string list" where
  "all_exts = [''.json'', ''.yaml'', ''.yml'', ''.md'', ''.llm'', ''.txt'', ''.jsonl'']"

definition file_link :: "string \<Rightarrow> string \<Rightarrow> string" where
  \<open>file_link base_url fp =
     (let rel = replace_chr (CHR 0x5C) ''/'' fp;
          display_path = (if startswith rel ''schemas/'' then replace_str ''schemas/'' [] rel else rel);
          href = (if base_url \<noteq> [] then base_url @ ''/'' @ rel else rel)
      in ''<li><a href="'' @ href @ ''" target="_blank">'' @ escape_html_str display_path @ ''</a></li>'')\<close>

definition index_content :: "env \<Rightarrow> string" where
  \<open>index_content E =
     (let quick_links = join ''\<newline>'' (map quick_link index_links);
          roots = filter (isdir E) index_roots;
          repo_slug = (case github_repository E of None \<Rightarrow> [] | Some r \<Rightarrow> r);
          base_url = (if repo_slug \<noteq> [] then ''https://raw.githubusercontent.com/'' @ repo_slug @ ''/main''
                      else []);
          file_links = concat (map (\<lambda>root. map (file_link base_url) (list_data_files E root all_exts)) roots)
      in
        ''\<newline>'' @
        ''    <p>Welcome to our AI-optimized public data hub. Use the quick navigation below, or browse all machine-readable files.</p>\<newline>'' @
        ''    <h2>'' @ [CHR 0xF0, CHR 0x9F, CHR 0x9A, CHR 0x80] @ '' Quick Navigation</h2>\<newline>'' @
        ''    <ul style="list-style: none; padding: 0;">\<newline>'' @
        ''        '' @ quick_links @ ''\<newline>'' @
        ''    </ul>\<newline>'' @
        ''    <h2 id="files">'' @ [CHR 0xF0, CHR 0x9F, CHR 0x93, CHR 0x81] @ '' All Files</h2>\<newline>'' @
        ''    <ul>\<newline>'' @
        ''        '' @
        (if file_links \<noteq> [] then concat (sort file_links)
         else ''<li class="muted">No files found yet.</li>'') @
        ''\<newline>'' @
        ''    </ul>\<newline>'' @
        ''    '')\<close>

definition generate_index_page :: "env \<Rightarrow> dirs \<Rightarrow> clock \<Rightarrow> files \<Rightarrow> outcome \<times> files" where
  "generate_index_page E D clk fs =
     (case load_org_meta E D of
        Inl e \<Rightarrow> (Raised e, fs)
      | Inr org \<Rightarrow>
          (let site_name = (if meta_name org \<noteq> [] then meta_name org else ''Site'')
           in write_page E D clk ''index.html'' (''Welcome to '' @ site_name) (index_content E) fs))"

section \<open>About page\<close>

text \<open>The organization record of the about page: only the first data file of the sorted
  folder is looked at, whether it yields a record or not.\<close>

fun about_org_record :: "env \<Rightarrow> string \<Rightarrow> string list \<Rightarrow> pyval option" where
  "about_org_record E d [] = None"
| "about_org_record E d (fn # fns) =
     (if endswith_any (lower fn) data_exts
      then (case records E (join_path d fn) of [] \<Rightarrow> None | r # _ \<Rightarrow> Some r)
      else about_org_record E d fns)"

definition about_service_title :: "env \<Rightarrow> string \<Rightarrow> pyval \<Rightarrow> string list" where
  "about_service_title E fn s =
     (case s of
        PDict o' \<Rightarrow>
          (let t = first_nonempty E [dget o' ''title'', dget o' ''service_name'', dget o' ''name''];
               t = (if is_placeholder_title (PStr t) then [] else t)
           in [if t \<noteq> [] then t else title_from_filename fn])
      | _ \<Rightarrow> [])"

definition about_service_titles :: "env \<Rightarrow> string \<Rightarrow> string list \<Rightarrow> string list" where
  "about_service_titles E d names =
     concat (map (\<lambda>fn.
        if \<not> endswith_any (lower fn) data_exts then []
        else concat (map (\<lambda>rec. concat (map (about_service_title E fn) (normalize_records rec)))
                         (records E (join_path d fn)))) names)"

text \<open>The variables of the locations loop: the areas added to the set so far, and the
  first phone and email found.\<close>

record area_acc =
  service_areas :: "string list"
  phone :: string
  email :: string

definition about_location :: "env \<Rightarrow> pyval \<Rightarrow> area_acc \<Rightarrow> area_acc" where
  "about_location E rec acc =
     (case rec of
        PDict loc \<Rightarrow>
          (let acc = acc \<lparr> service_areas := service_areas acc @
                       as_list E (por (dget loc ''service_areas'')
                                   (por (dget loc ''areas'') (dget loc ''locations_served''))) \<rparr>;
               acc = (if phone acc = []
                      then acc \<lparr> phone := first_nonempty E [dget loc ''phone'', dget loc ''telephone''] \<rparr>
                      else acc);
               acc = (if email acc = []
                      then acc \<lparr> email := first_nonempty E [dget loc ''email''] \<rparr>
                      else acc)
           in acc)
      | _ \<Rightarrow> acc)"

definition about_locations :: "env \<Rightarrow> string \<Rightarrow> string list \<Rightarrow> area_acc" where
  "about_locations E d names =
     fold (\<lambda>fn acc.
        if \<not> endswith_any (lower fn) data_exts then acc
        else fold (about_location E) (records E (join_path d fn)) acc)
       names \<lparr> service_areas = [], phone = [], email = [] \<rparr>"

text \<open>Comparison with zero, addition and division by a count, on floats.\<close>

definition float_pos :: "pyfloat \<Rightarrow> bool" where
  "float_pos f = (case f of Fin r \<Rightarrow> 0 < r | PosInf \<Rightarrow> True | _ \<Rightarrow> False)"

definition float_add :: "pyfloat \<Rightarrow> pyfloat \<Rightarrow> pyfloat" where
  "float_add a b =
     (case (a, b) of
        (Fin x, Fin y) \<Rightarrow> Fin (x + y)
      | (NaN, _) \<Rightarrow> NaN
      | (_, NaN) \<Rightarrow> NaN
      | (PosInf, NegInf) \<Rightarrow> NaN
      | (NegInf, PosInf) \<Rightarrow> NaN
      | (PosInf, _) \<Rightarrow> PosInf
      | (_, PosInf) \<Rightarrow> PosInf
      | (NegInf, _) \<Rightarrow> NegInf
      | (_, NegInf) \<Rightarrow> NegInf)"

definition float_div_count :: "pyfloat \<Rightarrow> nat \<Rightarrow> pyfloat" where
  "float_div_count a n = (case a of Fin x \<Rightarrow> Fin (x / of_nat n) | _ \<Rightarrow> a)"

definition about_rating :: "env \<Rightarrow> pyval \<Rightarrow> pyfloat list" where
  "about_rating E review =
     (case review of
        PDict o' \<Rightarrow>
          (case to_float E (dget o' ''rating'') of
             Inl e \<Rightarrow> []
           | Inr r \<Rightarrow> (if float_pos r then [r] else []))
      | _ \<Rightarrow> [])"

definition about_ratings :: "env \<Rightarrow> string \<Rightarrow> string list \<Rightarrow> pyfloat list" where
  "about_ratings E d names =
     concat (map (\<lambda>fn.
        if \<not> endswith_any (lower fn) data_exts then []
        else concat (map (about_rating E) (records E (join_path d fn)))) names)"

definition avg_rating :: "pyfloat list \<Rightarrow> pyfloat option" where
  "avg_rating ratings =
     (if ratings \<noteq> [] then Some (float_div_count (foldl float_add (Fin 0) ratings) (length ratings))
      else None)"

text \<open>\<^verbatim>\<open>round(x)\<close> rounds a half to the even neighbour; \<^verbatim>\<open>int(round(x))\<close> raises for NaN
  and the infinities. \<^verbatim>\<open>f"{x:.1f}"\<close> is the decimal text with one digit after the point,
  rounded in the same way.\<close>

definition round_half_even :: "rat \<Rightarrow> int" where
  "round_half_even r =
     (let f = \<lfloor>r\<rfloor>; d = r - of_int f in
      if d < 1 / 2 then f else if 1 / 2 < d then f + 1 else if even f then f else f + 1)"

definition int_round :: "pyfloat \<Rightarrow> exc + int" where
  "int_round x =
     (case x of
        Fin r \<Rightarrow> Inr (round_half_even r)
      | NaN \<Rightarrow> Inl ValueError
      | _ \<Rightarrow> Inl OverflowError)"

definition format_1f :: "pyfloat \<Rightarrow> string" where
  "format_1f x =
     (case x of
        Fin r \<Rightarrow>
          (let n = round_half_even (\<bar>r\<bar> * 10)
           in (if r < 0 then ''-'' else []) @ str_int (n div 10) @ ''.'' @ str_int (n mod 10))
      | NaN \<Rightarrow> ''nan''
      | PosInf \<Rightarrow> ''inf''
      | NegInf \<Rightarrow> ''-inf'')"

definition rating_fact :: "pyfloat \<Rightarrow> exc + string" where
  "rating_fact avg =
     (case int_round avg of
        Inl e \<Rightarrow> Inl e
      | Inr n \<Rightarrow>
          (let stars = repeat_str star_filled n @ repeat_str star_empty (5 - n)
           in Inr (''<strong>Average rating:</strong> '' @ format_1f avg @ '' '' @ stars)))"

text \<open>What the about page gathers from the folders before it renders.\<close>

record about_data =
  org :: "(string \<times> pyval) list"
  site_meta :: org_meta
  service_titles :: "string list"
  areas :: area_acc
  ratings :: "pyfloat list"

definition listdir_of :: "env \<Rightarrow> string option \<Rightarrow> exc + (string \<times> string list) option" where
  "listdir_of E x =
     (case dir_set x of
        None \<Rightarrow> Inr None
      | Some d \<Rightarrow> (case listdir E d of Inl e \<Rightarrow> Inl e | Inr names \<Rightarrow> Inr (Some (d, names))))"

definition about_gather :: "env \<Rightarrow> dirs \<Rightarrow> exc + about_data" where
  "about_gather E D =
     (case listdir_of E (ORG_DIR D) of
        Inl e \<Rightarrow> Inl e
      | Inr org_listing \<Rightarrow>
     (let org_obj = (case org_listing of None \<Rightarrow> None
                     | Some (d, names) \<Rightarrow> about_org_record E d (sort names));
          org = (case org_obj of Some (PDict o') \<Rightarrow> o' | _ \<Rightarrow> [])
      in case load_org_meta E D of
        Inl e \<Rightarrow> Inl e
      | Inr org_meta \<Rightarrow>
     (case listdir_of E (SERVICES_DIR D) of
        Inl e \<Rightarrow> Inl e
      | Inr services_listing \<Rightarrow>
     (case listdir_of E (LOCATIONS_DIR D) of
        Inl e \<Rightarrow> Inl e
      | Inr locations_listing \<Rightarrow>
     (case listdir_of E (REVIEWS_DIR D) of
        Inl e \<Rightarrow> Inl e
      | Inr reviews_listing \<Rightarrow>
          Inr \<lparr> org = org,
                site_meta = org_meta,
                service_titles = (case services_listing of None \<Rightarrow> []
                                  | Some (d, names) \<Rightarrow> about_service_titles E d names),
                areas = (case locations_listing of
                           None \<Rightarrow> \<lparr> service_areas = [], phone = [], email = [] \<rparr>
                         | Some (d, names) \<Rightarrow> about_locations E d names),
                ratings = (case reviews_listing of None \<Rightarrow> []
                           | Some (d, names) \<Rightarrow> about_ratings E d names) \<rparr>)))))"

definition about_display_name :: "env \<Rightarrow> about_data \<Rightarrow> string" where
  "about_display_name E a =
     (let n = first_nonempty E [dget (org a) ''entity_name'', dget (org a) ''name'',
                                PStr (meta_name (site_meta a))]
      in if n \<noteq> [] then n else ''About Us'')"

definition about_facts :: "about_data \<Rightarrow> exc + string list" where
  \<open>about_facts a =
     (case (case avg_rating (ratings a) of
              None \<Rightarrow> Inr []
            | Some avg \<Rightarrow> (case rating_fact avg of Inl e \<Rightarrow> Inl e | Inr row \<Rightarrow> Inr [row])) of
        Inl e \<Rightarrow> Inl e
      | Inr rating_rows \<Rightarrow>
          Inr ((if service_titles a \<noteq> []
                then [''<strong>Services offered:</strong> '' @ str_int (int (length (service_titles a)))]
                else []) @
               rating_rows @
               (if service_areas (areas a) \<noteq> []
                then [''<strong>Service areas:</strong> '' @
                      escape_html_str (join '', '' (take 10 (sort (remdups (service_areas (areas a))))))]
                else []) @
               (if phone (areas a) \<noteq> []
                then [''<strong>Phone:</strong> '' @ escape_html_str (phone (areas a))] else []) @
               (if email (areas a) \<noteq> []
                then [''<strong>Email:</strong> <a href="mailto:'' @ escape_html_str (email (areas a)) @
                      ''">'' @ escape_html_str (email (areas a)) @ ''</a>'']
                else [])))\<close>

definition facts_card :: "string list \<Rightarrow> string" where
  \<open>facts_card facts =
     ''<div class="card"><h2>Facts at a Glance</h2><ul>'' @
     concat (map (\<lambda>row. ''<li>'' @ row @ ''</li>'') facts) @ ''</ul></div>''\<close>

definition ready_to_talk :: string where
  \<open>ready_to_talk =
        ''\<newline>'' @
        ''    <div class="card">\<newline>'' @
        ''        <h2>Ready to Talk?</h2>\<newline>'' @
        ''        <p>Have a project in mind or need guidance? We'' @ [CHR 0xE2, CHR 0x80, CHR 0x99] @
        ''re here to help.</p>\<newline>'' @
        ''        <p><a href="contact.html">Contact us</a> to get started.</p>\<newline>'' @
        ''    </div>\<newline>'' @
        ''    ''\<close>

definition about_parts :: "env \<Rightarrow> about_data \<Rightarrow> string list \<Rightarrow> string list" where
  \<open>about_parts E a facts =
     (let display_name = about_display_name E a;
          logo_url = first_nonempty E [dget (org a) ''logo_url'', dget (org a) ''logo'',
                                       PStr (meta_logo (site_meta a))];
          desc = first_nonempty E [dget (org a) ''description'', dget (org a) ''about''];
          desc = (if desc = []
                  then display_name @ '' is a professional firm serving our community with a client-first approach.''
                  else desc);
          website = first_nonempty E [dget (org a) ''website'', dget (org a) ''url'',
                                      PStr (meta_website (site_meta a))];
          same_as = as_list E (por (dget (org a) ''sameAs'') (dget (org a) ''same_as''))
      in
        (if logo_url \<noteq> []
         then [''<img src="'' @ escape_html_str logo_url @ ''" alt="'' @ escape_html_str display_name @
               ''" style="max-height: 120px; margin-bottom: 2rem;">'']
         else []) @
        [''<p>'' @ escape_html_str desc @ ''</p>''] @
        (if facts \<noteq> [] then [facts_card facts] else []) @
        (if website \<noteq> [] \<or> same_as \<noteq> []
         then [''<h2>Links</h2><ul>'' @
               (if website \<noteq> []
                then ''<li><a href="'' @ escape_html_str website @
                     ''" target="_blank" rel="nofollow">Website</a></li>''
                else []) @
               concat (map (\<lambda>s. ''<li><a href="'' @ escape_html_str s @
                                  ''" target="_blank" rel="nofollow">'' @ escape_html_str s @ ''</a></li>'')
                           (take 12 same_as)) @
               ''</ul>'']
         else []) @
        [ready_to_talk])\<close>

definition generate_about_page :: "env \<Rightarrow> dirs \<Rightarrow> clock \<Rightarrow> files \<Rightarrow> outcome \<times> files" where
  "generate_about_page E D clk fs =
     (case about_gather E D of
        Inl e \<Rightarrow> (Raised e, fs)
      | Inr a \<Rightarrow>
          (case about_facts a of
             Inl e \<Rightarrow> (Raised e, fs)
           | Inr facts \<Rightarrow>
               write_page E D clk ''about.html'' (about_display_name E a)
                 (join ''\<newline>'' (about_parts E a facts)) fs))"

section \<open>Help page\<close>

text \<open>\<^verbatim>\<open>s.splitlines()\<close>: a line ends at a line feed, a carriage return (with the line
  feed after it, if any), a vertical tab, a form feed or one of the separators
  \<^verbatim>\<open>\x1c\<close>, \<^verbatim>\<open>\x1d\<close>, \<^verbatim>\<open>\x1e\<close>; there is no empty last line.\<close>

definition is_linebreak :: "char \<Rightarrow> bool" where
  "is_linebreak c = (let n = (of_char c :: nat) in (10 \<le> n \<and> n \<le> 13) \<or> (28 \<le> n \<and> n \<le> 30))"

fun splitlines_acc :: "string \<Rightarrow> string \<Rightarrow> string list" where
  "splitlines_acc acc [] = (if acc = [] then [] else [acc])"
| "splitlines_acc acc [c] = (if is_linebreak c then [acc] else [acc @ [c]])"
| "splitlines_acc acc (c # c' # cs) =
     (if c = CHR 0x0D \<and> c' = CHR 0x0A then acc # splitlines_acc [] cs
      else if is_linebreak c then acc # splitlines_acc [] (c' # cs)
      else splitlines_acc (acc @ [c]) (c' # cs))"

definition splitlines :: "string \<Rightarrow> string list" where
  "splitlines s = splitlines_acc [] s"

text \<open>The variables of the loop over the lines of an article.\<close>

record front_acc =
  fm_title :: string
  body_lines :: "string list"
  in_frontmatter :: bool
  frontmatter_done :: bool

text \<open>\<^verbatim>\<open>line.split(":", 1)[1]\<close>\<close>

definition after_first_colon :: "string \<Rightarrow> string" where
  "after_first_colon s = tl (dropWhile (\<lambda>c. c \<noteq> CHR '':'') s)"

definition front_line :: "string \<Rightarrow> front_acc \<Rightarrow> front_acc" where
  "front_line line acc =
     (if strip line = ''---'' \<and> \<not> frontmatter_done acc
      then (let acc = acc \<lparr> in_frontmatter := \<not> in_frontmatter acc \<rparr>
            in if \<not> in_frontmatter acc then acc \<lparr> frontmatter_done := True \<rparr> else acc)
      else if in_frontmatter acc \<and> \<not> frontmatter_done acc
      then (if startswith (lower line) ''title:''
            then acc \<lparr> fm_title := strip (after_first_colon line) \<rparr> else acc)
      else acc \<lparr> body_lines := body_lines acc @ [line] \<rparr>)"

definition html_line :: "string \<Rightarrow> string" where
  \<open>html_line line =
     (if startswith line ''## '' then ''<h2>'' @ escape_html_str (drop 3 line) @ ''</h2>''
      else if startswith line ''# '' then ''<h1>'' @ escape_html_str (drop 2 line) @ ''</h1>''
      else if startswith line ''- '' \<or> startswith line ''* ''
      then ''<p>'' @ [CHR 0xE2, CHR 0x80, CHR 0xA2] @ '' '' @ escape_html_str (drop 2 line) @ ''</p>''
      else if strip line = [] then ''<br/>''
      else ''<p>'' @ escape_html_str line @ ''</p>'')\<close>

definition article_card :: "string \<Rightarrow> string \<Rightarrow> string" where
  \<open>article_card filepath content =
     (let acc = fold front_line (splitlines content)
                  \<lparr> fm_title = [], body_lines = [], in_frontmatter = False, frontmatter_done = False \<rparr>;
          title = (if fm_title acc = [] then title_from_filename filepath else fm_title acc);
          html_lines = map html_line (body_lines acc)
      in
        ''\<newline>'' @
        ''        <div class="card">\<newline>'' @
        ''            <h2>'' @ escape_html_str title @ ''</h2>\<newline>'' @
        ''            '' @ concat html_lines @ ''\<newline>'' @
        ''        </div>\<newline>'' @
        ''        '')\<close>

definition help_article :: "env \<Rightarrow> string \<Rightarrow> exc + string list" where
  "help_article E filepath =
     (case read_text E filepath of Inl e \<Rightarrow> Inl e | Inr content \<Rightarrow> Inr [article_card filepath content])"

text \<open>The folder the articles are taken from: the help folder, or else the data folder for
  language models when it holds a markdown file.\<close>

definition help_source :: "env \<Rightarrow> dirs \<Rightarrow> string option" where
  "help_source E D =
     (case dir_set (HELP_DIR D) of
        Some d \<Rightarrow> Some d
      | None \<Rightarrow>
          (case dir_set (LLM_DATA_DIR D) of
             None \<Rightarrow> None
           | Some l \<Rightarrow>
               (if isdir E l
                then (let md_files = filter (\<lambda>f. endswith (lower f) ''.md'') (list_data_files E l [''.md''])
                      in if md_files \<noteq> [] then Some l else None)
                else None)))"

definition help_md_files :: "env \<Rightarrow> string \<Rightarrow> string list" where
  "help_md_files E src =
     sort (if isdir E src
           then concat (map (\<lambda>(root, files).
                               map (join_path root) (filter (\<lambda>fn. endswith (lower fn) ''.md'') files))
                            (walk E src))
           else [])"

definition help_missing_text :: string where
  "help_missing_text = ''No help-articles folder found yet. Add .md files to schemas/help-articles (or help-articles/) to populate this page.''"

definition generate_help_articles_page :: "env \<Rightarrow> dirs \<Rightarrow> clock \<Rightarrow> files \<Rightarrow> outcome \<times> files" where
  "generate_help_articles_page E D clk fs =
     (case help_source E D of
        None \<Rightarrow>
          write_page E D clk ''help.html'' ''Help Center''
            (placeholder ''Help Center'' help_missing_text) fs
      | Some src \<Rightarrow>
          (let md_files = help_md_files E src in
           if md_files = []
           then write_page E D clk ''help.html'' ''Help Center''
                  (placeholder ''Help Center'' ''No .md help articles found yet.'') fs
           else (case collect (help_article E) md_files of
                   Inl e \<Rightarrow> (Raised e, fs)
                 | Inr articles \<Rightarrow>
                     write_page E D clk ''help.html'' ''Help Center'' (concat articles) fs)))"

section \<open>The driver\<close>

text \<open>
  The driver creates the empty marker file, deletes the old pages and calls the eight
  renderers in turn. An exception of a renderer is caught: the flag \<^verbatim>\<open>ok\<close> is cleared and a
  line is printed. The exit status is 2 when the flag is cleared, 0 otherwise.
  The module constants are resolved against the directory the program is started in
  (\<open>is_dir0\<close>); the environment \<open>E\<close> is the one seen from the repository root, where the
  driver has changed to (the search for that root, \<^verbatim>\<open>find_repo_root\<close>, only decides which
  directory this is). The clock is read once for every page. Of the printed lines, those
  for a failure are kept: the line of \<^verbatim>\<open>load_data\<close> with its result, the lines of the driver in
  \<open>printed\<close>; the progress lines are left out.
\<close>

type_synonym generator = "files \<Rightarrow> outcome \<times> files"

definition html_files :: "string list" where
  "html_files = [''index.html'', ''about.html'', ''services.html'', ''awards.html'',
     ''testimonials.html'', ''faqs.html'', ''help.html'', ''contact.html'']"

definition generators :: "env \<Rightarrow> dirs \<Rightarrow> (string \<Rightarrow> clock) \<Rightarrow> (string \<times> generator) list" where
  "generators E D clk =
     [(''index.html'', generate_index_page E D (clk ''index.html'')),
      (''about.html'', generate_about_page E D (clk ''about.html'')),
      (''services.html'', generate_services_page E D (clk ''services.html'')),
      (''awards.html'', generate_awards_page E D (clk ''awards.html'')),
      (''testimonials.html'', generate_testimonials_page E D (clk ''testimonials.html'')),
      (''faqs.html'', generate_faq_page E D (clk ''faqs.html'')),
      (''help.html'', generate_help_articles_page E D (clk ''help.html'')),
      (''contact.html'', generate_contact_page E D (clk ''contact.html''))]"

text \<open>The state of the loop: the flag, the files, the lines printed on failure.\<close>

record run =
  ok :: bool
  out :: files
  printed :: "event list"

fun run_generators :: "(string \<times> generator) list \<Rightarrow> run \<Rightarrow> run" where
  "run_generators [] r = r"
| "run_generators ((filename, gen) # rest) r =
     (case gen (out r) of
        (Returned, fs) \<Rightarrow> run_generators rest (r \<lparr> out := fs \<rparr>)
      | (Raised e, fs) \<Rightarrow>
          run_generators rest
            (r \<lparr> ok := False, out := fs, printed := printed r @ [FailedGenerating filename e] \<rparr>))"

definition delete_old :: "string list \<Rightarrow> files \<Rightarrow> files" where
  "delete_old names fs = fold (\<lambda>f fs. if fs f \<noteq> None then fs(f := None) else fs) names fs"

definition exit_status :: "run \<Rightarrow> int" where
  "exit_status r = (if \<not> ok r then 2 else 0)"

definition build :: "(string \<Rightarrow> bool) \<Rightarrow> env \<Rightarrow> (string \<Rightarrow> clock) \<Rightarrow> files \<Rightarrow> run" where
  "build is_dir0 E clk fs =
     (let fs = fs(''.nojekyll'' \<mapsto> []);
          fs = delete_old html_files fs
      in run_generators (generators E (module_dirs is_dir0) clk)
           \<lparr> ok = True, out = fs, printed = [] \<rparr>)"

definition main :: "(string \<Rightarrow> bool) \<Rightarrow> env \<Rightarrow> (string \<Rightarrow> clock) \<Rightarrow> files \<Rightarrow> int" where
  "main is_dir0 E clk fs = exit_status (build is_dir0 E clk fs)"

section \<open>Reading the output\<close>

text \<open>\<open>contains s t\<close>: the text \<open>t\<close> occurs in \<open>s\<close>.\<close>

fun contains :: "string \<Rightarrow> string \<Rightarrow> bool" where
  "contains [] t = (t = [])"
| "contains (c # cs) t = (startswith (c # cs) t \<or> contains cs t)"

section \<open>Example inputs\<close>

text \<open>
  An environment given by tables: the folders with the names they list (each folder
  holds files only), the files with their text, and what the parsers return for a text
  (they raise on any other text). No environment variable is set; no string parses as a
  float.
\<close>

definition example_env ::
  "(string \<times> string list) list \<Rightarrow> (string \<times> string) list \<Rightarrow> (string \<times> pyval) list \<Rightarrow> env" where
  "example_env folders texts parses =
     \<lparr> isdir = (\<lambda>p. map_of folders p \<noteq> None),
       path_exists = (\<lambda>p. map_of folders p \<noteq> None \<or> map_of texts p \<noteq> None),
       listdir = (\<lambda>p. case map_of folders p of None \<Rightarrow> Inl OSError | Some names \<Rightarrow> Inr names),
       walk = (\<lambda>p. case map_of folders p of None \<Rightarrow> [] | Some names \<Rightarrow> [(p, names)]),
       read_text = (\<lambda>p. case map_of texts p of None \<Rightarrow> Inl OSError | Some t \<Rightarrow> Inr t),
       github_repository = None,
       json_loads = (\<lambda>c. case map_of parses c of None \<Rightarrow> Inl ParseError | Some v \<Rightarrow> Inr v),
       yaml_safe_load = (\<lambda>c. case map_of parses c of None \<Rightarrow> Inl ParseError | Some v \<Rightarrow> Inr v),
       float_repr = (\<lambda>f. ''float''),
       float_of_str = (\<lambda>s. None),
       container_repr = (\<lambda>v. ''container'') \<rparr>"

definition empty_env :: env where
  "empty_env = example_env [] [] []"

definition clock_a :: clock where
  "clock_a = \<lparr> year = 2026, utc_stamp = ''2026-11-03 09:15 UTC'' \<rparr>"




text \<open>
  The calls of the driver's loop, told without the flag: every renderer of the list is
  called once, in the order of the list, on the files that the call before it left,
  whether that call returned or raised. \<open>outcomes\<close> lists what each call did,
  \<open>files_after\<close> is what the last call leaves, \<open>failures\<close> are the lines printed for the
  calls that raised.
\<close>

fun outcomes :: "(string \<times> generator) list \<Rightarrow> files \<Rightarrow> (string \<times> outcome) list" where
  "outcomes [] fs = []"
| "outcomes ((filename, gen) # rest) fs =
     (filename, fst (gen fs)) # outcomes rest (snd (gen fs))"

fun files_after :: "(string \<times> generator) list \<Rightarrow> files \<Rightarrow> files" where
  "files_after [] fs = fs"
| "files_after ((filename, gen) # rest) fs = files_after rest (snd (gen fs))"

definition failures :: "(string \<times> outcome) list \<Rightarrow> event list" where
  "failures calls =
     concat (map (\<lambda>(n, oc). case oc of Returned \<Rightarrow> [] | Raised e \<Rightarrow> [FailedGenerating n e]) calls)"

definition all_returned :: "(string \<times> outcome) list \<Rightarrow> bool" where
  "all_returned calls = list_all (\<lambda>(n, oc). oc = Returned) calls"

text \<open>A repository with a folder \<^verbatim>\<open>faqs\<close> that cannot be listed, and nothing else.\<close>

definition env_faqs_unlistable :: env where
  "env_faqs_unlistable = (example_env [(''faqs'', [])] [] []) \<lparr> listdir := (\<lambda>p. Inl OSError) \<rparr>"




text \<open>
  The content categories that have a page with a placeholder text of its own, with the
  renderer, the output file, the candidate folders and the placeholder text of each.
  The awards page has one fixed folder and tests that the path exists. A category is
  unresolved when none of its candidate folders is there. For the help articles the
  renderer looks further: \<open>llm_markdown\<close> says that a data folder for language models was
  resolved, is a folder and lists a markdown file. \<open>org_listable\<close> says that the
  organization folder, when one was resolved, can be listed.
\<close>

datatype category = Services | Locations | Reviews | Faqs | HelpArticles | Awards

definition renderer_of :: "category \<Rightarrow> env \<Rightarrow> dirs \<Rightarrow> clock \<Rightarrow> generator" where
  "renderer_of c =
     (case c of
        Services \<Rightarrow> generate_services_page
      | Locations \<Rightarrow> generate_contact_page
      | Reviews \<Rightarrow> generate_testimonials_page
      | Faqs \<Rightarrow> generate_faq_page
      | HelpArticles \<Rightarrow> generate_help_articles_page
      | Awards \<Rightarrow> generate_awards_page)"

definition page_of :: "category \<Rightarrow> string" where
  "page_of c =
     (case c of
        Services \<Rightarrow> ''services.html''
      | Locations \<Rightarrow> ''contact.html''
      | Reviews \<Rightarrow> ''testimonials.html''
      | Faqs \<Rightarrow> ''faqs.html''
      | HelpArticles \<Rightarrow> ''help.html''
      | Awards \<Rightarrow> ''awards.html'')"

definition candidates_of :: "category \<Rightarrow> string list" where
  "candidates_of c =
     (case c of
        Services \<Rightarrow> services_candidates
      | Locations \<Rightarrow> locations_candidates
      | Reviews \<Rightarrow> reviews_candidates
      | Faqs \<Rightarrow> faq_candidates
      | HelpArticles \<Rightarrow> help_candidates
      | Awards \<Rightarrow> [''schemas/awards''])"

definition placeholder_text :: "category \<Rightarrow> string" where
  "placeholder_text c =
     (case c of
        Services \<Rightarrow> services_missing_text
      | Locations \<Rightarrow> locations_missing_text
      | Reviews \<Rightarrow> reviews_missing_text
      | Faqs \<Rightarrow> faq_missing_text
      | HelpArticles \<Rightarrow> help_missing_text
      | Awards \<Rightarrow> awards_missing_text)"

definition unresolved :: "(string \<Rightarrow> bool) \<Rightarrow> env \<Rightarrow> category \<Rightarrow> bool" where
  "unresolved is_dir0 E c =
     (case c of
        Awards \<Rightarrow> list_all (\<lambda>d. \<not> path_exists E d) (candidates_of c)
      | _ \<Rightarrow> list_all (\<lambda>d. \<not> is_dir0 d) (candidates_of c))"

definition llm_markdown :: "(string \<Rightarrow> bool) \<Rightarrow> env \<Rightarrow> bool" where
  "llm_markdown is_dir0 E =
     (case dir_set (LLM_DATA_DIR (module_dirs is_dir0)) of
        None \<Rightarrow> False
      | Some l \<Rightarrow>
          isdir E l \<and> filter (\<lambda>f. endswith (lower f) ''.md'') (list_data_files E l [''.md'']) \<noteq> [])"

definition org_listable :: "(string \<Rightarrow> bool) \<Rightarrow> env \<Rightarrow> bool" where
  "org_listable is_dir0 E =
     (case dir_set (ORG_DIR (module_dirs is_dir0)) of
        None \<Rightarrow> True
      | Some d \<Rightarrow> (case listdir E d of Inl e \<Rightarrow> False | Inr names \<Rightarrow> True))"

text \<open>A repository whose only folder is \<^verbatim>\<open>llm-data\<close>, holding one markdown file; and one
  whose only folder is \<^verbatim>\<open>organization\<close>, which cannot be listed.\<close>

definition env_llm_markdown :: env where
  "env_llm_markdown =
     example_env [(''llm-data'', [''guide.md''])]
       [(''llm-data/guide.md'', ''# Setup\<newline>Install it.\<newline>'')] []"

definition env_org_unlistable :: env where
  "env_org_unlistable =
     (example_env [(''organization'', [])] [] []) \<lparr> listdir := (\<lambda>p. Inl OSError) \<rparr>"



text \<open>
  The records of the data files of a folder, in the order of the listing; and the text
  of the fact for an average of 4: the value with one decimal, four filled stars and one
  empty star.
\<close>

definition folder_records :: "env \<Rightarrow> string \<Rightarrow> string list \<Rightarrow> pyval list" where
  "folder_records E d names =
     concat (map (\<lambda>fn. records E (join_path d fn))
                 (filter (\<lambda>fn. endswith_any (lower fn) data_exts) names))"

definition rating_text_4 :: string where
  "rating_text_4 =
     ''<strong>Average rating:</strong> 4.0 '' @
     star_filled @ star_filled @ star_filled @ star_filled @ star_empty"

text \<open>A repository whose only folder is \<^verbatim>\<open>reviews\<close>, with one file of three reviews rated
  5, 3 and 4.\<close>

definition env_three_reviews :: env where
  \<open>env_three_reviews =
     example_env [(''reviews'', [''all.json''])]
       [(''reviews/all.json'', ''[{"rating": 5}, {"rating": 3}, {"rating": 4}]'')]
       [(''[{"rating": 5}, {"rating": 3}, {"rating": 4}]'',
           PList [PDict [(''rating'', PInt 5)], PDict [(''rating'', PInt 3)],
                  PDict [(''rating'', PInt 4)]])]\<close>

text \<open>A location on the prime meridian: both coordinates are given as numbers, the
  longitude is 0.\<close>

definition loc_greenwich :: "(string \<times> pyval) list" where
  "loc_greenwich =
     [(''name'', PStr ''Greenwich''), (''latitude'', PInt 51), (''longitude'', PInt 0),
      (''address'', PStr ''Blackheath Ave, London'')]"

text \<open>A repository whose only folder is \<^verbatim>\<open>faqs\<close>, with one file whose top-level value is a
  mapping holding the list of questions under the key \<^verbatim>\<open>faqs\<close>.\<close>

definition faq_wrapper :: "(string \<times> pyval) list" where
  "faq_wrapper =
     [(''faqs'', PList [PDict [(''question'', PStr ''Do you deliver?''), (''answer'', PStr ''Yes.'')]])]"

definition env_faq_wrapped :: env where
  \<open>env_faq_wrapped =
     example_env [(''faqs'', [''faq.json''])]
       [(''faqs/faq.json'', ''{"faqs": [{"question": "Do you deliver?", "answer": "Yes."}]}'')]
       [(''{"faqs": [{"question": "Do you deliver?", "answer": "Yes."}]}'', PDict faq_wrapper)]\<close>

text \<open>The extensions that \<^verbatim>\<open>load_data\<close> accepts besides those of data files.\<close>

definition text_exts :: "string list" where
  "text_exts = [''.txt'', ''.md'', ''.llm'']"

text \<open>A services folder with the same JSON mapping in a text file and in a data file.\<close>

definition env_text_records :: env where
  \<open>env_text_records =
     example_env [(''services'', [''roofing.txt'', ''roofing.json''])]
       [(''services/roofing.txt'', ''{"title": "Roofing"}''),
        (''services/roofing.json'', ''{"title": "Roofing"}'')]
       [(''{"title": "Roofing"}'', PDict [(''title'', PStr ''Roofing'')])]\<close>

section \<open>Properties\<close>

subsection \<open>Occurrence of a text\<close>

lemma contains_iff: "contains s t \<longleftrightarrow> (\<exists>pre post. s = pre @ t @ post)"
proof (induction s)
  case Nil
  then show ?case by auto
next
  case (Cons c cs)
  show ?case
  proof
    assume "contains (c # cs) t"
    then consider "startswith (c # cs) t" | "contains cs t" by auto
    then show "\<exists>pre post. c # cs = pre @ t @ post"
    proof cases
      case 1
      then have "c # cs = [] @ t @ drop (length t) (c # cs)"
        unfolding startswith_def by (metis append_Nil append_take_drop_id)
      then show ?thesis by blast
    next
      case 2
      then obtain pre post where "cs = pre @ t @ post" using Cons.IH by blast
      then have "c # cs = (c # pre) @ t @ post" by simp
      then show ?thesis by blast
    qed
  next
    assume "\<exists>pre post. c # cs = pre @ t @ post"
    then obtain pre post where e: "c # cs = pre @ t @ post" by blast
    show "contains (c # cs) t"
    proof (cases pre)
      case Nil
      then have "startswith (c # cs) t" using e by (simp add: startswith_def)
      then show ?thesis by simp
    next
      case (Cons p ps)
      then have "cs = ps @ t @ post" using e by simp
      then have "contains cs t" using Cons.IH by blast
      then show ?thesis by simp
    qed
  qed
qed

lemma contains_mid: "contains (a @ t @ b) t"
  by (auto simp: contains_iff)

lemma contains_appendI1: "contains a t \<Longrightarrow> contains (a @ b) t"
  by (auto simp: contains_iff) (metis append.assoc)

lemma contains_appendI2: "contains b t \<Longrightarrow> contains (a @ b) t"
  by (auto simp: contains_iff) (metis append.assoc)

lemma contains_self: "contains t t"
  using contains_mid[of "[]" t "[]"] by simp

subsection \<open>Star rating of a testimonial\<close>

lemma review_rating_range: "1 \<le> review_rating E review \<and> review_rating E review \<le> 5"
  by (simp add: review_rating_def Let_def)

lemma to_float_small_int: "\<bar>i\<bar> < 1000 \<Longrightarrow> to_float E (PInt i) = Inr (Fin (of_int i))"
proof -
  assume a: "\<bar>i\<bar> < 1000"
  have "(1000::int) \<le> 2 ^ 1024 - 2 ^ 970" by simp
  then have "\<bar>i\<bar> < 2 ^ 1024 - 2 ^ 970" using a by linarith
  then show ?thesis by (simp add: to_float_def)
qed

lemma int_of_float_int: "int_of_float (Fin (of_int i)) = Inr i"
  by (simp add: int_of_float_def)

lemma review_rating_missing: "map_of review ''rating'' = None \<Longrightarrow> review_rating E review = 5"
  using to_float_small_int[of 5 E] int_of_float_int[of 5]
  by (simp add: review_rating_def Let_def)

lemma review_rating_unparseable:
  "(\<forall>v. map_of review ''rating'' = Some v \<longrightarrow> (\<exists>e. to_float E v = Inl e)) \<Longrightarrow> review_rating E review = 5"
proof (cases "map_of review ''rating''")
  case None
  then show ?thesis by (rule review_rating_missing)
next
  case (Some v)
  assume "\<forall>v. map_of review ''rating'' = Some v \<longrightarrow> (\<exists>e. to_float E v = Inl e)"
  then obtain e where "to_float E v = Inl e" using Some by blast
  then show ?thesis using Some by (simp add: review_rating_def Let_def)
qed

lemma review_card_stars: "contains (review_card E review) (star_display (review_rating E review))"
  unfolding review_card_def Let_def
  by (intro contains_appendI2 contains_appendI1 contains_self | rule contains_appendI1)+

text \<open>
  C10. The rating shown for a review on the testimonials page is an integer from 1 to 5;
  the star display is that many filled stars followed by empty stars up to five, and it
  stands in the card of the review; a review whose \<^verbatim>\<open>rating\<close> is missing, or is a value
  that \<^verbatim>\<open>float\<close> rejects, is shown with five filled stars.
\<close>

theorem testimonial_stars:
  "1 \<le> review_rating E review \<and> review_rating E review \<le> 5
   \<and> star_display (review_rating E review) =
       concat (replicate (nat (review_rating E review)) star_filled) @
       concat (replicate (5 - nat (review_rating E review)) star_empty)
   \<and> contains (review_card E review) (star_display (review_rating E review))
   \<and> ((\<forall>v. map_of review ''rating'' = Some v \<longrightarrow> (\<exists>e. to_float E v = Inl e))
        \<longrightarrow> star_display (review_rating E review) = concat (replicate 5 star_filled))"
proof -
  have r: "1 \<le> review_rating E review \<and> review_rating E review \<le> 5"
    by (rule review_rating_range)
  have n: "nat (5 - review_rating E review) = 5 - nat (review_rating E review)"
    using r by linarith
  have d: "star_display (review_rating E review) =
       concat (replicate (nat (review_rating E review)) star_filled) @
       concat (replicate (5 - nat (review_rating E review)) star_empty)"
    by (simp add: star_display_def repeat_str_def n)
  have u: "(\<forall>v. map_of review ''rating'' = Some v \<longrightarrow> (\<exists>e. to_float E v = Inl e))
        \<Longrightarrow> star_display (review_rating E review) = concat (replicate 5 star_filled)"
    by (simp add: review_rating_unparseable star_display_def repeat_str_def)
  show ?thesis using r d u review_card_stars by blast
qed

text \<open>A review rated \<^verbatim>\<open>"five"\<close>, which is no number, gets five filled stars; one rated 2
  gets two filled and three empty stars.\<close>

theorem testimonial_stars_witness:
  "to_float empty_env (PStr ''five'') = Inl ValueError
   \<and> star_display (review_rating empty_env [(''rating'', PStr ''five'')]) =
       star_filled @ star_filled @ star_filled @ star_filled @ star_filled
   \<and> review_rating empty_env [(''rating'', PInt 2)] = 2
   \<and> star_display (review_rating empty_env [(''rating'', PInt 2)]) =
       star_filled @ star_filled @ star_empty @ star_empty @ star_empty"
proof -
  have f: "to_float empty_env (PStr ''five'') = Inl ValueError"
    by (simp add: to_float_def empty_env_def example_env_def)
  have two: "review_rating empty_env [(''rating'', PInt 2)] = 2"
    using to_float_small_int[of 2 empty_env] int_of_float_int[of 2]
    by (simp add: review_rating_def Let_def)
  have hyp: "\<forall>v. map_of [(''rating'', PStr ''five'')] ''rating'' = Some v
                \<longrightarrow> (\<exists>e. to_float empty_env v = Inl e)"
    using f by simp
  have five: "star_display (review_rating empty_env [(''rating'', PStr ''five'')]) =
       concat (replicate 5 star_filled)"
    using testimonial_stars[of empty_env "[(''rating'', PStr ''five'')]"] hyp by blast
  have "star_display (review_rating empty_env [(''rating'', PInt 2)]) =
       concat (replicate (nat (review_rating empty_env [(''rating'', PInt 2)])) star_filled) @
       concat (replicate (5 - nat (review_rating empty_env [(''rating'', PInt 2)])) star_empty)"
    using testimonial_stars[of empty_env "[(''rating'', PInt 2)]"] by blast
  then have "star_display (review_rating empty_env [(''rating'', PInt 2)]) =
       concat (replicate (nat 2) star_filled) @ concat (replicate (5 - nat 2) star_empty)"
    by (simp only: two)
  then have s2: "star_display (review_rating empty_env [(''rating'', PInt 2)]) =
       star_filled @ star_filled @ star_empty @ star_empty @ star_empty"
    by (simp add: numeral_eq_Suc)
  have s5: "concat (replicate 5 star_filled) =
       star_filled @ star_filled @ star_filled @ star_filled @ star_filled"
    by (simp add: numeral_eq_Suc)
  show ?thesis using f two five s2 s5 by simp
qed

subsection \<open>The record loader\<close>







subsection \<open>Writing a page\<close>

lemma write_page_ok:
  "load_org_meta E D = Inr m \<Longrightarrow>
   write_page E D clk f t c fs =
     (Returned, fs(f \<mapsto> page_top m t @ c @ page_footer_open @ footer_stamp clk @ page_bottom))"
  by (simp add: write_page_def generate_page_def)

lemma write_page_raise:
  "load_org_meta E D = Inl e \<Longrightarrow> write_page E D clk f t c fs = (Raised e, fs(f \<mapsto> []))"
  by (simp add: write_page_def generate_page_def)

lemma write_page_file: "snd (write_page E D clk f t c fs) f \<noteq> None"
  by (cases "load_org_meta E D") (simp_all add: write_page_ok write_page_raise)

lemma load_org_meta_unresolved:
  "dir_set (ORG_DIR D) = None \<Longrightarrow> load_org_meta E D = Inr (meta_of_org E None)"
  by (simp add: load_org_meta_def)

lemma first_existing_dir_none: "(\<forall>d\<in>set cands. \<not> is_dir d) \<Longrightarrow> first_existing_dir is_dir cands = None"
  by (simp add: first_existing_dir_def find_None_iff)

lemma dir_set_None [simp]: "dir_set None = None"
  by (simp add: dir_set_def)

subsection \<open>The driver\<close>

lemma run_generators_calls:
  "run_generators gens r =
     \<lparr> ok = (ok r \<and> all_returned (outcomes gens (out r))),
       out = files_after gens (out r),
       printed = printed r @ failures (outcomes gens (out r)) \<rparr>"
proof (induction gens arbitrary: r)
  case Nil
  then show ?case by (simp add: all_returned_def failures_def)
next
  case (Cons g gens)
  obtain filename gen where g: "g = (filename, gen)" by (cases g)
  obtain oc fs where c: "gen (out r) = (oc, fs)" by (cases "gen (out r)")
  show ?case
  proof (cases oc)
    case Returned
    then show ?thesis using g c Cons.IH
      by (simp add: all_returned_def failures_def)
  next
    case (Raised e)
    then show ?thesis using g c Cons.IH
      by (simp add: all_returned_def failures_def)
  qed
qed

lemma outcomes_names: "map fst (outcomes gens fs) = map fst gens"
  by (induction gens fs rule: outcomes.induct) simp_all

lemma generators_names: "map fst (generators E D clk) = html_files"
  by (simp add: generators_def html_files_def)

text \<open>
  C1. The driver calls each of the eight renderers, in the order of the list and
  whatever the calls before did; it returns an exit status for every input: 0 when all
  eight calls returned, 2 when one of them raised; each exception is printed as a line
  naming the page.
\<close>

theorem driver_runs_every_renderer:
  "map fst (outcomes (generators E (module_dirs is_dir0) clk)
              (delete_old html_files (fs(''.nojekyll'' \<mapsto> [])))) = html_files
   \<and> length (outcomes (generators E (module_dirs is_dir0) clk)
              (delete_old html_files (fs(''.nojekyll'' \<mapsto> [])))) = 8
   \<and> out (build is_dir0 E clk fs) =
       files_after (generators E (module_dirs is_dir0) clk)
         (delete_old html_files (fs(''.nojekyll'' \<mapsto> [])))
   \<and> printed (build is_dir0 E clk fs) =
       failures (outcomes (generators E (module_dirs is_dir0) clk)
                  (delete_old html_files (fs(''.nojekyll'' \<mapsto> []))))
   \<and> main is_dir0 E clk fs =
       (if all_returned (outcomes (generators E (module_dirs is_dir0) clk)
                          (delete_old html_files (fs(''.nojekyll'' \<mapsto> []))))
        then 0 else 2)"
proof -
  let ?gens = "generators E (module_dirs is_dir0) clk"
  let ?fs1 = "delete_old html_files (fs(''.nojekyll'' \<mapsto> []))"
  have names: "map fst (outcomes ?gens ?fs1) = html_files"
    by (simp add: outcomes_names generators_names)
  have "length (map fst (outcomes ?gens ?fs1)) = length html_files"
    by (simp only: names)
  then have len: "length (outcomes ?gens ?fs1) = 8"
    by (simp add: html_files_def)
  have b: "build is_dir0 E clk fs =
      \<lparr> ok = all_returned (outcomes ?gens ?fs1),
        out = files_after ?gens ?fs1,
        printed = failures (outcomes ?gens ?fs1) \<rparr>"
    by (simp add: build_def Let_def run_generators_calls)
  show ?thesis using names len b by (simp add: main_def exit_status_def)
qed
subsection \<open>Renderers whose folder is not resolved\<close>

lemma services_unresolved:
  "dir_set (SERVICES_DIR D) = None \<Longrightarrow>
   generate_services_page E D clk fs =
     write_page E D clk ''services.html'' ''Our Services''
       (placeholder ''Our Services'' services_missing_text) fs"
  by (simp add: generate_services_page_def)

lemma testimonials_unresolved:
  "dir_set (REVIEWS_DIR D) = None \<Longrightarrow>
   generate_testimonials_page E D clk fs =
     write_page E D clk ''testimonials.html'' ''Testimonials''
       (placeholder ''Testimonials'' reviews_missing_text) fs"
  by (simp add: generate_testimonials_page_def)

lemma faq_unresolved:
  "dir_set (FAQ_DIR D) = None \<Longrightarrow>
   generate_faq_page E D clk fs =
     write_page E D clk ''faqs.html'' ''Frequently Asked Questions''
       (placeholder ''FAQs'' faq_missing_text) fs"
  by (simp add: generate_faq_page_def)

lemma contact_unresolved:
  "dir_set (LOCATIONS_DIR D) = None \<Longrightarrow>
   generate_contact_page E D clk fs =
     write_page E D clk ''contact.html'' ''Contact Us''
       (placeholder ''Contact Us'' locations_missing_text) fs"
  by (simp add: generate_contact_page_def)

lemma help_unresolved:
  "help_source E D = None \<Longrightarrow>
   generate_help_articles_page E D clk fs =
     write_page E D clk ''help.html'' ''Help Center''
       (placeholder ''Help Center'' help_missing_text) fs"
  by (simp add: generate_help_articles_page_def)

lemma awards_unresolved:
  "\<not> path_exists E ''schemas/awards'' \<Longrightarrow>
   generate_awards_page E D clk fs =
     write_page E D clk ''awards.html'' ''Awards'' awards_missing_text fs"
  by (simp add: generate_awards_page_def)

lemma about_unresolved:
  "dir_set (ORG_DIR D) = None \<Longrightarrow> dir_set (SERVICES_DIR D) = None \<Longrightarrow>
   dir_set (LOCATIONS_DIR D) = None \<Longrightarrow> dir_set (REVIEWS_DIR D) = None \<Longrightarrow>
   fst (generate_about_page E D clk fs) = Returned"
  by (simp add: generate_about_page_def about_gather_def listdir_of_def load_org_meta_unresolved
      about_facts_def avg_rating_def write_page_ok)

lemma index_returns:
  "dir_set (ORG_DIR D) = None \<Longrightarrow> fst (generate_index_page E D clk fs) = Returned"
  by (simp add: generate_index_page_def load_org_meta_unresolved write_page_ok)

lemma module_dirs_nothing:
  "module_dirs (\<lambda>p. False) =
     \<lparr> ORG_DIR = None, SERVICES_DIR = None, REVIEWS_DIR = None, FAQ_DIR = None,
       HELP_DIR = None, LOCATIONS_DIR = None, LLM_DATA_DIR = None \<rparr>"
  by (simp add: module_dirs_def first_existing_dir_none)

lemma module_dirs_faqs:
  "module_dirs (isdir env_faqs_unlistable) =
     \<lparr> ORG_DIR = None, SERVICES_DIR = None, REVIEWS_DIR = None, FAQ_DIR = Some ''faqs'',
       HELP_DIR = None, LOCATIONS_DIR = None, LLM_DATA_DIR = None \<rparr>"
  by (simp add: module_dirs_def first_existing_dir_def env_faqs_unlistable_def example_env_def
      org_candidates_def services_candidates_def reviews_candidates_def faq_candidates_def
      help_candidates_def locations_candidates_def llm_data_candidates_def join_path_def
      startswith_def endswith_def)

text \<open>With no folder at all every call returns and the status is 0. With a folder
  \<^verbatim>\<open>faqs\<close> that cannot be listed the call for \<^verbatim>\<open>faqs.html\<close> raises, the status is 2, the
  line is printed, and the two renderers after it have still been called: the last one
  has written \<^verbatim>\<open>contact.html\<close>.\<close>

theorem driver_runs_every_renderer_witness:
  "main (\<lambda>p. False) empty_env (\<lambda>f. clock_a) Map.empty = 0
   \<and> printed (build (\<lambda>p. False) empty_env (\<lambda>f. clock_a) Map.empty) = []
   \<and> main (isdir env_faqs_unlistable) env_faqs_unlistable (\<lambda>f. clock_a) Map.empty = 2
   \<and> printed (build (isdir env_faqs_unlistable) env_faqs_unlistable (\<lambda>f. clock_a) Map.empty) =
       [FailedGenerating ''faqs.html'' OSError]
   \<and> out (build (isdir env_faqs_unlistable) env_faqs_unlistable (\<lambda>f. clock_a) Map.empty)
         ''contact.html'' \<noteq> None"
proof -
  let ?fs1 = "delete_old html_files (Map.empty(''.nojekyll'' \<mapsto> []))"
  let ?D0 = "module_dirs (\<lambda>p. False)"
  let ?D1 = "module_dirs (isdir env_faqs_unlistable)"
  have no_awards0: "\<not> path_exists empty_env ''schemas/awards''"
    by (simp add: empty_env_def example_env_def)
  have no_awards1: "\<not> path_exists env_faqs_unlistable ''schemas/awards''"
    by (simp add: env_faqs_unlistable_def example_env_def)
  have calls0: "outcomes (generators empty_env ?D0 (\<lambda>f. clock_a)) ?fs1 =
      [(''index.html'', Returned), (''about.html'', Returned), (''services.html'', Returned),
       (''awards.html'', Returned), (''testimonials.html'', Returned), (''faqs.html'', Returned),
       (''help.html'', Returned), (''contact.html'', Returned)]"
    unfolding module_dirs_nothing generators_def
    by (simp add: index_returns about_unresolved services_unresolved awards_unresolved
        testimonials_unresolved faq_unresolved help_unresolved contact_unresolved
        help_source_def no_awards0 load_org_meta_unresolved write_page_ok)
  have faq1: "\<And>fs. generate_faq_page env_faqs_unlistable ?D1 clock_a fs = (Raised OSError, fs)"
    unfolding module_dirs_faqs
    by (simp add: generate_faq_page_def dir_set_def env_faqs_unlistable_def)
  have calls1: "outcomes (generators env_faqs_unlistable ?D1 (\<lambda>f. clock_a)) ?fs1 =
      [(''index.html'', Returned), (''about.html'', Returned), (''services.html'', Returned),
       (''awards.html'', Returned), (''testimonials.html'', Returned), (''faqs.html'', Raised OSError),
       (''help.html'', Returned), (''contact.html'', Returned)]"
    unfolding generators_def
    by (simp add: faq1)
      (simp add: module_dirs_faqs index_returns about_unresolved services_unresolved awards_unresolved
        testimonials_unresolved help_unresolved contact_unresolved
        help_source_def no_awards1 load_org_meta_unresolved write_page_ok)
  have last1: "files_after (generators env_faqs_unlistable ?D1 (\<lambda>f. clock_a)) ?fs1 ''contact.html'' \<noteq> None"
    unfolding generators_def
    by (simp add: module_dirs_faqs contact_unresolved write_page_file)
  show ?thesis
    using driver_runs_every_renderer[of empty_env "\<lambda>p. False" "\<lambda>f. clock_a" Map.empty]
          driver_runs_every_renderer[of env_faqs_unlistable "isdir env_faqs_unlistable" "\<lambda>f. clock_a" Map.empty]
          calls0 calls1 last1
    by (simp add: all_returned_def failures_def)
qed

subsection \<open>Two runs differ in the line with the time only\<close>






















subsection \<open>Placeholder pages\<close>

lemma contains_subset: "contains s t \<Longrightarrow> set t \<subseteq> set s"
  by (auto simp: contains_iff)

lemma placeholder_contains_escaped: "contains (placeholder t reason) (escape_html_str reason)"
  unfolding placeholder_def
  by (intro contains_appendI2 contains_appendI1 contains_self | rule contains_appendI1)+

lemma placeholder_contains:
  "escape_html_str reason = reason \<Longrightarrow> contains (placeholder t reason) reason"
  using placeholder_contains_escaped[of t reason] by simp

lemma page_contains:
  "contains c t \<Longrightarrow> contains (page_top m title @ c @ page_footer_open @ footer_stamp clk @ page_bottom) t"
  by (rule contains_appendI2, rule contains_appendI1)

lemma plain_services: "escape_html_str services_missing_text = services_missing_text"
  by code_simp

lemma plain_locations: "escape_html_str locations_missing_text = locations_missing_text"
  by code_simp

lemma plain_reviews: "escape_html_str reviews_missing_text = reviews_missing_text"
  by code_simp

lemma plain_faq: "escape_html_str faq_missing_text = faq_missing_text"
  by code_simp

lemma plain_help: "escape_html_str help_missing_text = help_missing_text"
  by code_simp

lemma unresolved_dir:
  "list_all (\<lambda>d. \<not> is_dir d) cands \<Longrightarrow> dir_set (first_existing_dir is_dir cands) = None"
  by (simp add: first_existing_dir_none list_all_iff)

lemma help_source_none:
  "list_all (\<lambda>d. \<not> is_dir0 d) help_candidates \<Longrightarrow> \<not> llm_markdown is_dir0 E \<Longrightarrow>
   help_source E (module_dirs is_dir0) = None"
  using unresolved_dir[of is_dir0 help_candidates]
  by (auto simp: help_source_def llm_markdown_def module_dirs_def Let_def split: option.splits)

lemma placeholder_written:
  "contains c t \<Longrightarrow>
   snd (write_page E D clk f title c fs) f \<noteq> None
   \<and> ((\<exists>m. load_org_meta E D = Inr m) \<longrightarrow>
        fst (write_page E D clk f title c fs) = Returned
        \<and> (\<exists>page. snd (write_page E D clk f title c fs) f = Some page \<and> contains page t))"
  by (auto simp: write_page_ok write_page_file page_contains)

lemma org_listable_meta:
  "org_listable is_dir0 E \<Longrightarrow> \<exists>m. load_org_meta E (module_dirs is_dir0) = Inr m"
  by (auto simp: org_listable_def load_org_meta_def split: option.splits sum.splits)

text \<open>
  C2, amended. When none of the candidate folders of a category is there (services,
  locations, reviews, FAQs, awards; for the help articles when, besides, no data folder
  for language models with a markdown file is there), the renderer of the category
  writes the page's file; and when the organization folder, if one was resolved, can be
  listed, the renderer returns and the file contains the placeholder text of the
  category.
\<close>

theorem unresolved_category_placeholder:
  assumes "unresolved is_dir0 E c"
    and "c = HelpArticles \<longrightarrow> \<not> llm_markdown is_dir0 E"
  shows "snd (renderer_of c E (module_dirs is_dir0) clk fs) (page_of c) \<noteq> None
     \<and> (org_listable is_dir0 E \<longrightarrow>
          fst (renderer_of c E (module_dirs is_dir0) clk fs) = Returned
          \<and> (\<exists>page. snd (renderer_of c E (module_dirs is_dir0) clk fs) (page_of c) = Some page
                \<and> contains page (placeholder_text c)))"
proof -
  let ?D = "module_dirs is_dir0"
  have m: "org_listable is_dir0 E \<Longrightarrow> \<exists>m. load_org_meta E ?D = Inr m"
    by (rule org_listable_meta)
  show ?thesis
  proof (cases c)
    case Services
    then have "dir_set (SERVICES_DIR ?D) = None"
      using assms(1) by (simp add: unresolved_def candidates_of_def module_dirs_def unresolved_dir)
    then have r: "renderer_of c E ?D clk fs =
        write_page E ?D clk (page_of c) ''Our Services''
          (placeholder ''Our Services'' (placeholder_text c)) fs"
      using Services
      by (simp add: renderer_of_def page_of_def placeholder_text_def services_unresolved)
    have "contains (placeholder ''Our Services'' (placeholder_text c)) (placeholder_text c)"
      using Services by (simp add: placeholder_text_def placeholder_contains plain_services)
    from placeholder_written[OF this] m show ?thesis unfolding r by blast
  next
    case Locations
    then have "dir_set (LOCATIONS_DIR ?D) = None"
      using assms(1) by (simp add: unresolved_def candidates_of_def module_dirs_def unresolved_dir)
    then have r: "renderer_of c E ?D clk fs =
        write_page E ?D clk (page_of c) ''Contact Us''
          (placeholder ''Contact Us'' (placeholder_text c)) fs"
      using Locations
      by (simp add: renderer_of_def page_of_def placeholder_text_def contact_unresolved)
    have "contains (placeholder ''Contact Us'' (placeholder_text c)) (placeholder_text c)"
      using Locations by (simp add: placeholder_text_def placeholder_contains plain_locations)
    from placeholder_written[OF this] m show ?thesis unfolding r by blast
  next
    case Reviews
    then have "dir_set (REVIEWS_DIR ?D) = None"
      using assms(1) by (simp add: unresolved_def candidates_of_def module_dirs_def unresolved_dir)
    then have r: "renderer_of c E ?D clk fs =
        write_page E ?D clk (page_of c) ''Testimonials''
          (placeholder ''Testimonials'' (placeholder_text c)) fs"
      using Reviews
      by (simp add: renderer_of_def page_of_def placeholder_text_def testimonials_unresolved)
    have "contains (placeholder ''Testimonials'' (placeholder_text c)) (placeholder_text c)"
      using Reviews by (simp add: placeholder_text_def placeholder_contains plain_reviews)
    from placeholder_written[OF this] m show ?thesis unfolding r by blast
  next
    case Faqs
    then have "dir_set (FAQ_DIR ?D) = None"
      using assms(1) by (simp add: unresolved_def candidates_of_def module_dirs_def unresolved_dir)
    then have r: "renderer_of c E ?D clk fs =
        write_page E ?D clk (page_of c) ''Frequently Asked Questions''
          (placeholder ''FAQs'' (placeholder_text c)) fs"
      using Faqs
      by (simp add: renderer_of_def page_of_def placeholder_text_def faq_unresolved)
    have "contains (placeholder ''FAQs'' (placeholder_text c)) (placeholder_text c)"
      using Faqs by (simp add: placeholder_text_def placeholder_contains plain_faq)
    from placeholder_written[OF this] m show ?thesis unfolding r by blast
  next
    case HelpArticles
    then have "help_source E ?D = None"
      using assms by (simp add: unresolved_def candidates_of_def help_source_none)
    then have r: "renderer_of c E ?D clk fs =
        write_page E ?D clk (page_of c) ''Help Center''
          (placeholder ''Help Center'' (placeholder_text c)) fs"
      using HelpArticles
      by (simp add: renderer_of_def page_of_def placeholder_text_def help_unresolved)
    have "contains (placeholder ''Help Center'' (placeholder_text c)) (placeholder_text c)"
      using HelpArticles by (simp add: placeholder_text_def placeholder_contains plain_help)
    from placeholder_written[OF this] m show ?thesis unfolding r by blast
  next
    case Awards
    then have "\<not> path_exists E ''schemas/awards''"
      using assms(1) by (simp add: unresolved_def candidates_of_def)
    then have r: "renderer_of c E ?D clk fs =
        write_page E ?D clk (page_of c) ''Awards'' (placeholder_text c) fs"
      using Awards
      by (simp add: renderer_of_def page_of_def placeholder_text_def awards_unresolved)
    have "contains (placeholder_text c) (placeholder_text c)"
      by (rule contains_self)
    from placeholder_written[OF this] m show ?thesis unfolding r by blast
  qed
qed
lemma module_dirs_llm:
  "module_dirs (isdir env_llm_markdown) =
     \<lparr> ORG_DIR = None, SERVICES_DIR = None, REVIEWS_DIR = None, FAQ_DIR = None,
       HELP_DIR = None, LOCATIONS_DIR = None, LLM_DATA_DIR = Some ''llm-data'' \<rparr>"
  by (simp add: module_dirs_def first_existing_dir_def env_llm_markdown_def example_env_def
      org_candidates_def services_candidates_def reviews_candidates_def faq_candidates_def
      help_candidates_def locations_candidates_def llm_data_candidates_def join_path_def
      startswith_def endswith_def)

lemma module_dirs_org:
  "module_dirs (isdir env_org_unlistable) =
     \<lparr> ORG_DIR = Some ''organization'', SERVICES_DIR = None, REVIEWS_DIR = None, FAQ_DIR = None,
       HELP_DIR = None, LOCATIONS_DIR = None, LLM_DATA_DIR = None \<rparr>"
  by (simp add: module_dirs_def first_existing_dir_def env_org_unlistable_def example_env_def
      org_candidates_def services_candidates_def reviews_candidates_def faq_candidates_def
      help_candidates_def locations_candidates_def llm_data_candidates_def join_path_def
      startswith_def endswith_def)

lemma lower_guide: "lower ''guide.md'' = ''guide.md''"
  by (simp add: lower_def lower_chr_def is_upper_def)

lemma lower_guide_path: "lower ''llm-data/guide.md'' = ''llm-data/guide.md''"
  by (simp add: lower_def lower_chr_def is_upper_def)

lemma llm_files:
  "list_data_files env_llm_markdown ''llm-data'' [''.md''] = [''llm-data/guide.md'']"
  by (simp add: list_data_files_def env_llm_markdown_def example_env_def lower_guide
      endswith_any_def endswith_def join_path_def startswith_def)

lemma help_source_llm:
  "help_source env_llm_markdown (module_dirs (isdir env_llm_markdown)) = Some ''llm-data''"
  unfolding module_dirs_llm
  by (simp add: help_source_def dir_set_def llm_files lower_guide_path endswith_def)
    (simp add: env_llm_markdown_def example_env_def)

lemma help_md_files_llm: "help_md_files env_llm_markdown ''llm-data'' = [''llm-data/guide.md'']"
  by (simp add: help_md_files_def env_llm_markdown_def example_env_def lower_guide
      endswith_def join_path_def startswith_def)

lemma site_meta_default:
  "github_repository E = None \<Longrightarrow>
   meta_of_org E None = \<lparr> meta_name = ''Site'', meta_favicon = [], meta_logo = [], meta_website = [] \<rparr>"
  by (simp add: meta_of_org_def default_site_name_def)

lemma help_page_llm:
  "generate_help_articles_page env_llm_markdown (module_dirs (isdir env_llm_markdown)) clock_a Map.empty =
     (Returned,
      [''help.html'' \<mapsto>
         page_top \<lparr> meta_name = ''Site'', meta_favicon = [], meta_logo = [], meta_website = [] \<rparr>
           ''Help Center'' @
         article_card ''llm-data/guide.md'' ''# Setup\<newline>Install it.\<newline>'' @
         page_footer_open @ footer_stamp clock_a @ page_bottom])"
proof -
  have r: "read_text env_llm_markdown ''llm-data/guide.md'' = Inr ''# Setup\<newline>Install it.\<newline>''"
    by (simp add: env_llm_markdown_def example_env_def)
  have g: "github_repository env_llm_markdown = None"
    by (simp add: env_llm_markdown_def example_env_def)
  have m: "load_org_meta env_llm_markdown (module_dirs (isdir env_llm_markdown)) =
      Inr \<lparr> meta_name = ''Site'', meta_favicon = [], meta_logo = [], meta_website = [] \<rparr>"
    using site_meta_default[OF g] by (simp add: load_org_meta_unresolved module_dirs_llm)
  show ?thesis
    by (simp add: generate_help_articles_page_def help_source_llm help_md_files_llm help_article_def r
        write_page_ok[OF m])
qed

lemma paren_not_in_top:
  "CHR ''('' \<notin> set (page_top \<lparr> meta_name = ''Site'', meta_favicon = [], meta_logo = [], meta_website = [] \<rparr>
                         ''Help Center'')"
  by (simp add: page_top_def Let_def escape_html_str_def replace_chr_def em_dash_def
      page_links_and_style_def generate_nav_def)

lemma guide_title: "title_from_filename ''llm-data/guide.md'' = ''Guide''"
  by code_simp

lemma paren_not_in_card:
  "CHR ''('' \<notin> set (article_card ''llm-data/guide.md'' ''# Setup\<newline>Install it.\<newline>'')"
  by (simp add: article_card_def Let_def splitlines_def is_linebreak_def front_line_def
      strip_def lstrip_def rstrip_def is_space_def html_line_def startswith_def
      escape_html_str_def replace_chr_def guide_title)

lemma paren_not_in_foot:
  "CHR ''('' \<notin> set (page_footer_open @ footer_stamp clock_a @ page_bottom)"
proof -
  have "str_int 2026 = ''2026''" by code_simp
  then show ?thesis
    by (simp add: page_footer_open_def footer_stamp_def page_bottom_def clock_a_def em_dash_def)
qed

lemma paren_in_help_text: "CHR ''('' \<in> set help_missing_text"
  by (simp add: help_missing_text_def)

text \<open>As stated, C2 fails. With no help folder but a markdown file in \<^verbatim>\<open>llm-data\<close>, the help
  page is rendered from that file and does not contain the placeholder text. With an
  organization folder that cannot be listed, the services renderer, whose folder is not
  there, raises and leaves its page empty.\<close>

theorem unresolved_category_counterexample:
  "unresolved (isdir env_llm_markdown) env_llm_markdown HelpArticles
   \<and> org_listable (isdir env_llm_markdown) env_llm_markdown
   \<and> fst (generate_help_articles_page env_llm_markdown (module_dirs (isdir env_llm_markdown))
            clock_a Map.empty) = Returned
   \<and> \<not> contains (the (snd (generate_help_articles_page env_llm_markdown
                              (module_dirs (isdir env_llm_markdown)) clock_a Map.empty) ''help.html''))
          help_missing_text
   \<and> unresolved (isdir env_org_unlistable) env_org_unlistable Services
   \<and> generate_services_page env_org_unlistable (module_dirs (isdir env_org_unlistable))
         clock_a Map.empty = (Raised OSError, [''services.html'' \<mapsto> []])"
proof -
  have u1: "unresolved (isdir env_llm_markdown) env_llm_markdown HelpArticles"
    by (simp add: unresolved_def candidates_of_def help_candidates_def env_llm_markdown_def
        example_env_def join_path_def startswith_def endswith_def)
  have o1: "org_listable (isdir env_llm_markdown) env_llm_markdown"
    by (simp add: org_listable_def module_dirs_llm)
  have "CHR ''('' \<notin> set (the (snd (generate_help_articles_page env_llm_markdown
                              (module_dirs (isdir env_llm_markdown)) clock_a Map.empty) ''help.html''))"
    using paren_not_in_top paren_not_in_card paren_not_in_foot by (simp add: help_page_llm)
  then have n1: "\<not> contains (the (snd (generate_help_articles_page env_llm_markdown
                              (module_dirs (isdir env_llm_markdown)) clock_a Map.empty) ''help.html''))
          help_missing_text"
    using contains_subset paren_in_help_text by blast
  have u2: "unresolved (isdir env_org_unlistable) env_org_unlistable Services"
    by (simp add: unresolved_def candidates_of_def services_candidates_def env_org_unlistable_def
        example_env_def)
  have l2: "listdir env_org_unlistable ''organization'' = Inl OSError"
    by (simp add: env_org_unlistable_def)
  have "load_org_meta env_org_unlistable (module_dirs (isdir env_org_unlistable)) = Inl OSError"
    by (simp add: load_org_meta_def module_dirs_org dir_set_def l2)
  then have r2: "generate_services_page env_org_unlistable (module_dirs (isdir env_org_unlistable))
         clock_a Map.empty = (Raised OSError, [''services.html'' \<mapsto> []])"
    by (simp add: services_unresolved module_dirs_org write_page_raise)
  show ?thesis using u1 o1 n1 u2 r2 by (simp add: help_page_llm)
qed

text \<open>With no folder at all, the services page and the help page are written, the
  renderers return, and each page contains its placeholder text.\<close>

theorem unresolved_category_placeholder_witness:
  "unresolved (\<lambda>p. False) empty_env Services
   \<and> unresolved (\<lambda>p. False) empty_env HelpArticles
   \<and> org_listable (\<lambda>p. False) empty_env
   \<and> fst (generate_services_page empty_env (module_dirs (\<lambda>p. False)) clock_a Map.empty) = Returned
   \<and> contains (the (snd (generate_services_page empty_env (module_dirs (\<lambda>p. False)) clock_a Map.empty)
                      ''services.html'')) services_missing_text
   \<and> fst (generate_help_articles_page empty_env (module_dirs (\<lambda>p. False)) clock_a Map.empty) = Returned
   \<and> contains (the (snd (generate_help_articles_page empty_env (module_dirs (\<lambda>p. False)) clock_a Map.empty)
                      ''help.html'')) help_missing_text"
proof -
  have u1: "unresolved (\<lambda>p. False) empty_env Services"
    by (simp add: unresolved_def candidates_of_def list_all_iff)
  have u2: "unresolved (\<lambda>p. False) empty_env HelpArticles"
    by (simp add: unresolved_def candidates_of_def list_all_iff)
  have l: "\<not> llm_markdown (\<lambda>p. False) empty_env"
    by (simp add: llm_markdown_def module_dirs_nothing)
  have o: "org_listable (\<lambda>p. False) empty_env"
    by (simp add: org_listable_def module_dirs_nothing)
  have s: "fst (renderer_of Services empty_env (module_dirs (\<lambda>p. False)) clock_a Map.empty) = Returned
     \<and> (\<exists>page. snd (renderer_of Services empty_env (module_dirs (\<lambda>p. False)) clock_a Map.empty)
                   (page_of Services) = Some page \<and> contains page (placeholder_text Services))"
    using unresolved_category_placeholder[of "\<lambda>p. False" empty_env Services clock_a Map.empty] u1 o
    by blast
  have h: "fst (renderer_of HelpArticles empty_env (module_dirs (\<lambda>p. False)) clock_a Map.empty) = Returned
     \<and> (\<exists>page. snd (renderer_of HelpArticles empty_env (module_dirs (\<lambda>p. False)) clock_a Map.empty)
                   (page_of HelpArticles) = Some page \<and> contains page (placeholder_text HelpArticles))"
    using unresolved_category_placeholder[of "\<lambda>p. False" empty_env HelpArticles clock_a Map.empty] u2 l o
    by blast
  show ?thesis using u1 u2 o s h
    by (auto simp: renderer_of_def page_of_def placeholder_text_def)
qed

subsection \<open>Titles of service cards\<close>










subsection \<open>The average rating on the about page\<close>

lemma contains_trans: "contains a b \<Longrightarrow> contains b c \<Longrightarrow> contains a c"
proof -
  assume "contains a b" and "contains b c"
  then obtain p1 q1 p2 q2 where "a = p1 @ b @ q1" and "b = p2 @ c @ q2"
    by (auto simp: contains_iff)
  then have "a = (p1 @ p2) @ c @ (q2 @ q1)" by simp
  then show ?thesis unfolding contains_iff by blast
qed

lemma contains_concat: "x \<in> set xs \<Longrightarrow> contains (concat xs) x"
proof (induction xs)
  case Nil
  then show ?case by simp
next
  case (Cons y ys)
  then show ?case
    by (auto simp: contains_self intro: contains_appendI1 contains_appendI2)
qed

lemma contains_join: "x \<in> set xs \<Longrightarrow> contains (join sep xs) x"
proof (induction sep xs rule: join.induct)
  case (1 sep)
  then show ?case by simp
next
  case (2 sep y)
  then show ?case by (simp add: contains_self)
next
  case (3 sep y z zs)
  then show ?case
    by (auto simp: contains_self intro: contains_appendI1 contains_appendI2)
qed

lemma about_ratings_folder:
  "about_ratings E d names = concat (map (about_rating E) (folder_records E d names))"
  unfolding about_ratings_def folder_records_def
  by (induction names) simp_all

lemma about_rating_int:
  "dget r ''rating'' = PInt i \<Longrightarrow> 0 < i \<Longrightarrow> i < 1000 \<Longrightarrow>
   about_rating E (PDict r) = [Fin (of_int i)]"
  using to_float_small_int[of i E] by (simp add: about_rating_def float_pos_def)

lemma foldl_float_add_fin:
  "foldl float_add (Fin a) (map (\<lambda>i. Fin (of_int i)) is) = Fin (a + of_int (sum_list is))"
  by (induction "is" arbitrary: a) (simp_all add: float_add_def add.assoc)

lemma ratings_of_reviews:
  assumes "\<forall>r\<in>set revs. \<exists>i. dget r ''rating'' = PInt i \<and> 0 < i \<and> i < 1000"
  shows "\<exists>is. length is = length revs
           \<and> map (\<lambda>r. dget r ''rating'') revs = map PInt is
           \<and> concat (map (about_rating E) (map PDict revs)) = map (\<lambda>i. Fin (of_int i)) is"
  using assms
proof (induction revs)
  case Nil
  then show ?case by simp
next
  case (Cons r revs)
  then obtain "is" where i: "length is = length revs"
      "map (\<lambda>r. dget r ''rating'') revs = map PInt is"
      "concat (map (about_rating E) (map PDict revs)) = map (\<lambda>i. Fin (of_int i)) is"
    by auto
  obtain i where r: "dget r ''rating'' = PInt i" "0 < i" "i < 1000"
    using Cons.prems by auto
  have "length (i # is) = length (r # revs)
        \<and> map (\<lambda>r. dget r ''rating'') (r # revs) = map PInt (i # is)
        \<and> concat (map (about_rating E) (map PDict (r # revs))) = map (\<lambda>i. Fin (of_int i)) (i # is)"
    using i r by (simp add: about_rating_int)
  then show ?case by blast
qed

lemma avg_of_5_3_4:
  assumes "mset (map (\<lambda>r. dget r ''rating'') revs) = {#PInt 5, PInt 3, PInt 4#}"
  shows "avg_rating (concat (map (about_rating E) (map PDict revs))) = Some (Fin 4)"
proof -
  have s: "set (map (\<lambda>r. dget r ''rating'') revs) = {PInt 5, PInt 3, PInt 4}"
    using assms by (metis set_mset_add_mset_insert set_mset_empty set_mset_mset)
  have "\<forall>r\<in>set revs. \<exists>i. dget r ''rating'' = PInt i \<and> 0 < i \<and> i < 1000"
  proof
    fix r assume "r \<in> set revs"
    then have "dget r ''rating'' \<in> set (map (\<lambda>r. dget r ''rating'') revs)" by simp
    then have "dget r ''rating'' \<in> {PInt 5, PInt 3, PInt 4}" by (simp only: s)
    then show "\<exists>i. dget r ''rating'' = PInt i \<and> 0 < i \<and> i < 1000" by auto
  qed
  then obtain "is" where i: "length is = length revs"
      "map (\<lambda>r. dget r ''rating'') revs = map PInt is"
      "concat (map (about_rating E) (map PDict revs)) = map (\<lambda>i. Fin (of_int i)) is"
    using ratings_of_reviews by blast
  have "image_mset PInt (mset is) = image_mset PInt {#5, 3, 4#}"
    using assms i(2) by simp
  then have m: "mset is = {#5, 3, 4#}"
    by (metis (no_types) inj_def multiset.inj_map_strong pyval.inject(2))
  have "sum_mset (mset is) = 12" and "size (mset is) = 3"
    by (simp_all add: m)
  then have sl: "sum_list is = 12" and ln: "length is = 3"
    by (simp_all add: sum_mset_sum_list)
  have ne: "map (\<lambda>i. Fin (rat_of_int i)) is \<noteq> []"
    using ln by auto
  have "avg_rating (map (\<lambda>i. Fin (rat_of_int i)) is) = Some (Fin 4)"
    using ne sl ln by (simp add: avg_rating_def foldl_float_add_fin float_div_count_def)
  then show ?thesis by (simp only: i(3))
qed

lemma rating_fact_4: "rating_fact (Fin 4) = Inr rating_text_4"
  by code_simp

lemma about_gather_ratings:
  "about_gather E D = Inr a \<Longrightarrow> dir_set (REVIEWS_DIR D) = Some d \<Longrightarrow> listdir E d = Inr names \<Longrightarrow>
   ratings a = about_ratings E d names"
  by (auto simp: about_gather_def listdir_of_def Let_def split: sum.splits option.splits)

lemma about_facts_rating:
  "avg_rating (ratings a) = Some (Fin 4) \<Longrightarrow>
   \<exists>facts. about_facts a = Inr facts \<and> rating_text_4 \<in> set facts"
  by (simp add: about_facts_def rating_fact_4)

lemma facts_card_row: "row \<in> set facts \<Longrightarrow> contains (facts_card facts) (''<li>'' @ row @ ''</li>'')"
proof -
  assume "row \<in> set facts"
  then have "(''<li>'' @ row @ ''</li>'') \<in> set (map (\<lambda>row. ''<li>'' @ row @ ''</li>'') facts)"
    by auto
  then have "contains (concat (map (\<lambda>row. ''<li>'' @ row @ ''</li>'') facts)) (''<li>'' @ row @ ''</li>'')"
    by (rule contains_concat)
  then show ?thesis unfolding facts_card_def
    by (rule contains_appendI2[OF contains_appendI1])
qed

lemma about_parts_card: "facts \<noteq> [] \<Longrightarrow> facts_card facts \<in> set (about_parts E a facts)"
  by (simp add: about_parts_def Let_def)

lemma about_page_fact:
  assumes "generate_about_page E D clk fs = (Returned, fs')"
    and "about_gather E D = Inr a" and "about_facts a = Inr facts" and "row \<in> set facts"
  shows "\<exists>page. fs' ''about.html'' = Some page \<and> contains page (''<li>'' @ row @ ''</li>'')"
proof -
  have ne: "facts \<noteq> []" using assms(4) by auto
  have c: "contains (join ''\<newline>'' (about_parts E a facts)) (''<li>'' @ row @ ''</li>'')"
    using contains_trans[OF contains_join[OF about_parts_card[OF ne]] facts_card_row[OF assms(4)]] .
  have w: "write_page E D clk ''about.html'' (about_display_name E a)
             (join ''\<newline>'' (about_parts E a facts)) fs = (Returned, fs')"
    using assms(1,2,3) by (simp add: generate_about_page_def)
  show ?thesis
  proof (cases "load_org_meta E D")
    case (Inl e)
    then show ?thesis using w by (simp add: write_page_raise)
  next
    case (Inr m)
    then show ?thesis using w c by (auto simp: write_page_ok page_contains)
  qed
qed

text \<open>
  C7. When the records of the reviews folder are three reviews rated 5, 3 and 4, in any
  order, the facts of the about page hold the average rating as \<^verbatim>\<open>4.0\<close> followed by four
  filled stars and one empty star, and the page that the renderer writes contains this
  fact.
\<close>

theorem average_rating_fact:
  assumes "dir_set (REVIEWS_DIR D) = Some d" and "listdir E d = Inr names"
    and "folder_records E d names = map PDict revs"
    and "mset (map (\<lambda>r. dget r ''rating'') revs) = {#PInt 5, PInt 3, PInt 4#}"
  shows "(\<forall>a. about_gather E D = Inr a \<longrightarrow>
            (\<exists>facts. about_facts a = Inr facts \<and> rating_text_4 \<in> set facts))
     \<and> (\<forall>fs'. generate_about_page E D clk fs = (Returned, fs') \<longrightarrow>
            (\<exists>page. fs' ''about.html'' = Some page
               \<and> contains page (''<li>'' @ rating_text_4 @ ''</li>'')))"
proof -
  have f: "\<exists>facts. about_facts a = Inr facts \<and> rating_text_4 \<in> set facts"
    if g: "about_gather E D = Inr a" for a
  proof -
    have "ratings a = concat (map (about_rating E) (map PDict revs))"
      using about_gather_ratings[OF g assms(1,2)] about_ratings_folder[of E d names] assms(3)
      by simp
    then have "avg_rating (ratings a) = Some (Fin 4)"
      using avg_of_5_3_4[OF assms(4)] by simp
    then show ?thesis by (rule about_facts_rating)
  qed
  have p: "\<exists>page. fs' ''about.html'' = Some page \<and> contains page (''<li>'' @ rating_text_4 @ ''</li>'')"
    if r: "generate_about_page E D clk fs = (Returned, fs')" for fs'
  proof -
    obtain a where g: "about_gather E D = Inr a"
      using r by (cases "about_gather E D") (simp_all add: generate_about_page_def)
    obtain facts where "about_facts a = Inr facts" and "rating_text_4 \<in> set facts"
      using f[OF g] by blast
    then show ?thesis using about_page_fact[OF r g] by blast
  qed
  show ?thesis using f p by blast
qed
lemma module_dirs_reviews:
  "module_dirs (isdir env_three_reviews) =
     \<lparr> ORG_DIR = None, SERVICES_DIR = None, REVIEWS_DIR = Some ''reviews'', FAQ_DIR = None,
       HELP_DIR = None, LOCATIONS_DIR = None, LLM_DATA_DIR = None \<rparr>"
  by (simp add: module_dirs_def first_existing_dir_def env_three_reviews_def example_env_def
      org_candidates_def services_candidates_def reviews_candidates_def faq_candidates_def
      help_candidates_def locations_candidates_def llm_data_candidates_def join_path_def
      startswith_def endswith_def)

text \<open>With the three reviews in one file of the reviews folder, the about page is written,
  the renderer returns, and the page contains the fact.\<close>

theorem average_rating_fact_witness:
  "folder_records env_three_reviews ''reviews'' [''all.json''] =
     map PDict [[(''rating'', PInt 5)], [(''rating'', PInt 3)], [(''rating'', PInt 4)]]
   \<and> fst (generate_about_page env_three_reviews (module_dirs (isdir env_three_reviews))
            clock_a Map.empty) = Returned
   \<and> contains (the (snd (generate_about_page env_three_reviews (module_dirs (isdir env_three_reviews))
                           clock_a Map.empty) ''about.html''))
        (''<li>'' @ rating_text_4 @ ''</li>'')"
proof -
  let ?E = env_three_reviews
  let ?D = "module_dirs (isdir env_three_reviews)"
  let ?revs = "[[(''rating'', PInt 5)], [(''rating'', PInt 3)], [(''rating'', PInt 4)]]"
  have d: "dir_set (REVIEWS_DIR ?D) = Some ''reviews''"
    by (simp add: module_dirs_reviews dir_set_def)
  have l: "listdir ?E ''reviews'' = Inr [''all.json'']"
    by (simp add: env_three_reviews_def example_env_def)
  have r: "folder_records ?E ''reviews'' [''all.json''] = map PDict ?revs"
    by code_simp
  have m: "mset (map (\<lambda>r. dget r ''rating'') ?revs) = {#PInt 5, PInt 3, PInt 4#}"
    by (simp add: dget_def)
  note t = average_rating_fact[OF d l r m, of clock_a Map.empty]
  obtain a where g: "about_gather ?E ?D = Inr a"
    by (simp add: about_gather_def listdir_of_def load_org_meta_unresolved module_dirs_reviews
        dir_set_def l)
  obtain facts where f: "about_facts a = Inr facts"
    using t g by blast
  have o: "load_org_meta ?E ?D = Inr (meta_of_org ?E None)"
    by (simp add: load_org_meta_unresolved module_dirs_reviews)
  have ret: "fst (generate_about_page ?E ?D clock_a Map.empty) = Returned"
    by (simp add: generate_about_page_def g f write_page_ok[OF o])
  then obtain fs' where p: "generate_about_page ?E ?D clock_a Map.empty = (Returned, fs')"
    by (cases "generate_about_page ?E ?D clock_a Map.empty") simp
  then obtain page where "fs' ''about.html'' = Some page"
      and "contains page (''<li>'' @ rating_text_4 @ ''</li>'')"
    using t by blast
  then show ?thesis using r ret p by simp
qed

subsection \<open>The source of the map\<close>

lemma get_in_none: "get_in PNone k = Inr PNone"
  by (simp add: get_in_def)

text \<open>
  C8 does not hold for a coordinate that is 0. A latitude or longitude that is the number
  0 is false for \<^verbatim>\<open>or\<close>, so \<^verbatim>\<open>_map_embed_src\<close> looks for it in \<^verbatim>\<open>geo\<close> instead; with no \<^verbatim>\<open>geo\<close> and no
  map field in the record, the source is the address search (or empty, without an
  address), although both coordinates are given as numbers.
\<close>

theorem zero_coordinate_not_used:
  assumes "dget loc ''latitude'' = PInt 0 \<or> dget loc ''longitude'' = PInt 0"
    and "dget loc ''geo'' = PNone"
    and "first_nonempty E [dget loc ''map_embed_url'', dget loc ''map'', dget loc ''map_iframe''] = []"
    and "first_nonempty E [dget loc ''google_maps_url'', dget loc ''maps_url'', dget loc ''map_url''] = []"
  shows "map_embed_src E loc address = Inr (if address \<noteq> [] then address_map_url address else [])"
  using assms
  by (auto simp: map_embed_src_def or_get_in_def get_in_none is_number_def Let_def)

text \<open>The location on the prime meridian gets the address search as the source of its
  map, not the map of its coordinates.\<close>

theorem zero_coordinate_not_used_witness:
  "is_number (dget loc_greenwich ''latitude'') \<and> is_number (dget loc_greenwich ''longitude'')
   \<and> format_address empty_env loc_greenwich = ''Blackheath Ave, London''
   \<and> map_embed_src empty_env loc_greenwich ''Blackheath Ave, London'' =
       Inr ''https://www.google.com/maps?q=Blackheath+Ave%2C+London&output=embed''
   \<and> map_embed_src empty_env loc_greenwich ''Blackheath Ave, London'' \<noteq>
       Inr (coordinate_map_url ''51'' ''0'')"
proof -
  have n: "is_number (dget loc_greenwich ''latitude'') \<and> is_number (dget loc_greenwich ''longitude'')"
    by (simp add: loc_greenwich_def dget_def is_number_def)
  have a: "format_address empty_env loc_greenwich = ''Blackheath Ave, London''"
    by code_simp
  have z: "dget loc_greenwich ''latitude'' = PInt 0 \<or> dget loc_greenwich ''longitude'' = PInt 0"
    by (simp add: loc_greenwich_def dget_def)
  have g: "dget loc_greenwich ''geo'' = PNone"
    by (simp add: loc_greenwich_def dget_def)
  have m1: "first_nonempty empty_env [dget loc_greenwich ''map_embed_url'', dget loc_greenwich ''map'',
              dget loc_greenwich ''map_iframe''] = []"
    by (simp add: loc_greenwich_def dget_def)
  have m2: "first_nonempty empty_env [dget loc_greenwich ''google_maps_url'', dget loc_greenwich ''maps_url'',
              dget loc_greenwich ''map_url''] = []"
    by (simp add: loc_greenwich_def dget_def)
  have u: "address_map_url ''Blackheath Ave, London'' =
      ''https://www.google.com/maps?q=Blackheath+Ave%2C+London&output=embed''"
    by code_simp
  have c: "coordinate_map_url ''51'' ''0'' \<noteq>
      ''https://www.google.com/maps?q=Blackheath+Ave%2C+London&output=embed''"
    by code_simp
  have "map_embed_src empty_env loc_greenwich ''Blackheath Ave, London'' =
      Inr (address_map_url ''Blackheath Ave, London'')"
    using zero_coordinate_not_used[OF z g m1 m2, of "''Blackheath Ave, London''"] by simp
  then show ?thesis using n a u c by simp
qed

subsection \<open>Wrapper mappings\<close>

text \<open>
  C4 does not hold for the FAQ page and the contact page. \<^verbatim>\<open>load_data\<close> returns the wrapper
  mapping as the only record of the file. The FAQ page never unwraps it: the wrapper has
  no question, so the file gives no card. The contact page passes the list of records to
  \<^verbatim>\<open>_normalize_records\<close>, which returns a list as it is, so the wrapper stays the only
  record. Applied to the wrapper itself, as the about page does for services,
  \<^verbatim>\<open>_normalize_records\<close> gives the inner records.
\<close>

theorem wrapper_not_unwrapped:
  assumes "endswith_any (lower fn) data_exts"
    and "records E (join_path d fn) = [PDict w]"
    and "dget w ''locations'' = PNone" and "dget w ''services'' = PNone"
    and "dget w ''faqs'' = PList inner"
    and "dget w ''question'' = PNone" and "dget w ''answer'' = PNone"
  shows "faq_file_items E d fn = Inr []
     \<and> normalize_records (PList (records E (join_path d fn))) = [PDict w]
     \<and> normalize_records (PDict w) = inner"
  using assms
  by (simp add: faq_file_items_def faq_record_def text_field_def por_def normalize_records_def
      strip_def lstrip_def rstrip_def)

lemma module_dirs_faq_wrapped:
  "module_dirs (isdir env_faq_wrapped) =
     \<lparr> ORG_DIR = None, SERVICES_DIR = None, REVIEWS_DIR = None, FAQ_DIR = Some ''faqs'',
       HELP_DIR = None, LOCATIONS_DIR = None, LLM_DATA_DIR = None \<rparr>"
  by (simp add: module_dirs_def first_existing_dir_def env_faq_wrapped_def example_env_def
      org_candidates_def services_candidates_def reviews_candidates_def faq_candidates_def
      help_candidates_def locations_candidates_def llm_data_candidates_def join_path_def
      startswith_def endswith_def)

text \<open>The file \<^verbatim>\<open>faqs/faq.json\<close> wraps one question; the FAQ page that is written says that no
  usable FAQ was found.\<close>

theorem wrapper_not_unwrapped_witness:
  "records env_faq_wrapped ''faqs/faq.json'' = [PDict faq_wrapper]
   \<and> normalize_records (PDict faq_wrapper) =
       [PDict [(''question'', PStr ''Do you deliver?''), (''answer'', PStr ''Yes.'')]]
   \<and> faq_items env_faq_wrapped ''faqs'' [''faq.json''] = Inr []
   \<and> generate_faq_page env_faq_wrapped (module_dirs (isdir env_faq_wrapped)) clock_a Map.empty =
       (Returned,
        [''faqs.html'' \<mapsto>
           page_top (meta_of_org env_faq_wrapped None) ''Frequently Asked Questions'' @
           placeholder ''FAQs'' ''No usable FAQs found yet.'' @
           page_footer_open @ footer_stamp clock_a @ page_bottom])"
proof -
  have e: "endswith_any (lower ''faq.json'') data_exts"
    by code_simp
  have j: "join_path ''faqs'' ''faq.json'' = ''faqs/faq.json''"
    by code_simp
  have r: "records env_faq_wrapped ''faqs/faq.json'' = [PDict faq_wrapper]"
    by code_simp
  have k: "dget faq_wrapper ''locations'' = PNone" "dget faq_wrapper ''services'' = PNone"
      "dget faq_wrapper ''faqs'' =
         PList [PDict [(''question'', PStr ''Do you deliver?''), (''answer'', PStr ''Yes.'')]]"
      "dget faq_wrapper ''question'' = PNone" "dget faq_wrapper ''answer'' = PNone"
    by (simp_all add: faq_wrapper_def dget_def)
  have r': "records env_faq_wrapped (join_path ''faqs'' ''faq.json'') = [PDict faq_wrapper]"
    using r j by simp
  note t = wrapper_not_unwrapped[OF e r' k]
  have i: "faq_items env_faq_wrapped ''faqs'' [''faq.json''] = Inr []"
    using t by (simp add: faq_items_def)
  have l: "listdir env_faq_wrapped ''faqs'' = Inr [''faq.json'']"
    by (simp add: env_faq_wrapped_def example_env_def)
  have o: "load_org_meta env_faq_wrapped (module_dirs (isdir env_faq_wrapped)) =
      Inr (meta_of_org env_faq_wrapped None)"
    by (simp add: load_org_meta_unresolved module_dirs_faq_wrapped)
  have p: "generate_faq_page env_faq_wrapped (module_dirs (isdir env_faq_wrapped)) clock_a Map.empty =
       (Returned,
        [''faqs.html'' \<mapsto>
           page_top (meta_of_org env_faq_wrapped None) ''Frequently Asked Questions'' @
           placeholder ''FAQs'' ''No usable FAQs found yet.'' @
           page_footer_open @ footer_stamp clock_a @ page_bottom])"
    by (simp add: generate_faq_page_def module_dirs_faq_wrapped dir_set_def l i
        write_page_ok[OF o[unfolded module_dirs_faq_wrapped]])
  show ?thesis using r t i p by simp
qed

subsection \<open>Text files in a category folder\<close>

lemma endswith_both:
  assumes "endswith s p" and "endswith s q" and "length q \<le> length p"
  shows "endswith p q"
proof -
  have p: "length p \<le> length s" "drop (length s - length p) s = p"
    using assms(1) by (simp_all add: endswith_def)
  have q: "length q \<le> length s" "drop (length s - length q) s = q"
    using assms(2) by (simp_all add: endswith_def)
  have "drop (length p - length q) p = drop (length p - length q) (drop (length s - length p) s)"
    by (simp only: p(2))
  also have "\<dots> = drop (length s - length q) s"
    using p(1) assms(3) by simp
  finally show ?thesis using q(2) assms(3) by (simp add: endswith_def)
qed

lemma text_not_data:
  "endswith_any s text_exts \<Longrightarrow> \<not> endswith_any s (''.jsonld'' # data_exts)"
proof
  assume t: "endswith_any s text_exts" and d: "endswith_any s (''.jsonld'' # data_exts)"
  from t obtain x where x: "x \<in> set text_exts" "endswith s x"
    by (auto simp: endswith_any_def list_ex_iff)
  from d obtain y where y: "y \<in> set (''.jsonld'' # data_exts)" "endswith s y"
    by (auto simp: endswith_any_def list_ex_iff)
  have "endswith x y \<or> endswith y x"
    using endswith_both[OF x(2) y(2)] endswith_both[OF y(2) x(2)] by linarith
  moreover have "\<not> endswith x y" and "\<not> endswith y x"
    using x(1) y(1) by (auto simp: text_exts_def data_exts_def endswith_def)
  ultimately show False by blast
qed

lemma endswith_map: "endswith s p \<Longrightarrow> endswith (map f s) (map f p)"
  by (auto simp: endswith_def drop_map)

lemma lower_data_exts: "endswith_any s data_exts \<Longrightarrow> endswith_any (lower s) data_exts"
proof -
  have l: "lower ''.json'' = ''.json''" "lower ''.yaml'' = ''.yaml''" "lower ''.yml'' = ''.yml''"
    by (simp_all add: lower_def lower_chr_def is_upper_def)
  assume "endswith_any s data_exts"
  then show ?thesis
    using endswith_map[of s "''.json''" lower_chr] endswith_map[of s "''.yaml''" lower_chr]
      endswith_map[of s "''.yml''" lower_chr] l
    by (auto simp: endswith_any_def data_exts_def lower_def)
qed

lemma load_data_text:
  assumes "endswith_any (lower p) text_exts" and "p \<noteq> []" and "path_exists E p"
    and "read_text E p = Inr raw" and "strip raw \<noteq> []"
  shows "load_data E p =
     parsed_records p
       (if startswith (lstrip (strip raw)) ''{'' \<or> startswith (lstrip (strip raw)) ''[''
        then json_loads E (strip raw) else yaml_safe_load E (strip raw))"
proof -
  have n: "\<not> endswith_any (lower p) (''.jsonld'' # data_exts)"
    using assms(1) by (rule text_not_data)
  have n1: "\<not> endswith_any (lower p) [''.json'', ''.jsonld'']"
    using n by (simp add: endswith_any_def data_exts_def)
  have n2: "\<not> endswith_any (lower p) [''.yaml'', ''.yml'']"
    using n by (simp add: endswith_any_def data_exts_def)
  have t: "endswith_any (lower p) [''.txt'', ''.md'', ''.llm'']"
    using assms(1) by (simp add: text_exts_def)
  show ?thesis
    using assms(2-5) n1 n2 t by (simp add: load_data_def Let_def)
qed

text \<open>
  C5, amended. \<^verbatim>\<open>load_data\<close>, given the path of a \<^verbatim>\<open>.txt\<close>, \<^verbatim>\<open>.md\<close> or \<^verbatim>\<open>.llm\<close> file that is not
  blank, returns the records of its content, parsed as JSON when the text starts with a
  brace or bracket and as YAML otherwise. But the loops of the services, testimonials,
  FAQ, contact and awards pages skip every file whose name does not end in \<^verbatim>\<open>.json\<close>,
  \<^verbatim>\<open>.yaml\<close> or \<^verbatim>\<open>.yml\<close>, so such a file of the category folder adds nothing to the page.
\<close>

theorem text_files_not_rendered:
  assumes "endswith_any (lower fn) text_exts"
  shows "(join_path d fn \<noteq> [] \<longrightarrow> path_exists E (join_path d fn) \<longrightarrow>
          (\<forall>raw. read_text E (join_path d fn) = Inr raw \<longrightarrow> strip raw \<noteq> [] \<longrightarrow>
             endswith_any (lower (join_path d fn)) text_exts \<longrightarrow>
             records E (join_path d fn) =
               fst (parsed_records (join_path d fn)
                 (if startswith (lstrip (strip raw)) ''{'' \<or> startswith (lstrip (strip raw)) ''[''
                  then json_loads E (strip raw) else yaml_safe_load E (strip raw)))))
     \<and> services_file_items E d fn = []
     \<and> reviews_file_items E d fn = []
     \<and> faq_file_items E d fn = Inr []
     \<and> contact_file E d fn acc = Inr acc
     \<and> awards_file_items E d fn = []"
proof -
  have n: "\<not> endswith_any (lower fn) data_exts"
    using text_not_data[OF assms] by (simp add: endswith_any_def)
  then have n': "\<not> endswith_any fn data_exts"
    using lower_data_exts by blast
  have a: "join_path d fn \<noteq> [] \<Longrightarrow> path_exists E (join_path d fn) \<Longrightarrow>
      read_text E (join_path d fn) = Inr raw \<Longrightarrow> strip raw \<noteq> [] \<Longrightarrow>
      endswith_any (lower (join_path d fn)) text_exts \<Longrightarrow>
      records E (join_path d fn) =
        fst (parsed_records (join_path d fn)
          (if startswith (lstrip (strip raw)) ''{'' \<or> startswith (lstrip (strip raw)) ''[''
           then json_loads E (strip raw) else yaml_safe_load E (strip raw)))" for raw
    using load_data_text[of "join_path d fn" E raw] by (simp add: records_def)
  show ?thesis
    using n n' a
    by (simp add: services_file_items_def reviews_file_items_def faq_file_items_def
        contact_file_def awards_file_items_def)
qed

text \<open>The text file \<^verbatim>\<open>services/roofing.txt\<close> holds a JSON mapping: the loader returns it as a
  record, and the loop of the services page gives no card for the file.\<close>

theorem text_files_not_rendered_witness:
  "endswith_any (lower ''roofing.txt'') text_exts
   \<and> records env_text_records (join_path ''services'' ''roofing.txt'') =
       [PDict [(''title'', PStr ''Roofing'')]]
   \<and> services_file_items env_text_records ''services'' ''roofing.txt'' = []
   \<and> reviews_file_items env_text_records ''services'' ''roofing.txt'' = []"
proof -
  have e: "endswith_any (lower ''roofing.txt'') text_exts"
    by code_simp
  have r: "records env_text_records (join_path ''services'' ''roofing.txt'') =
       [PDict [(''title'', PStr ''Roofing'')]]"
    by code_simp
  show ?thesis
    using text_files_not_rendered[OF e, of "''services''" env_text_records] e r by simp
qed

text \<open>As stated, C5 fails: the same mapping gives a card on the services page when its
  file is named \<^verbatim>\<open>roofing.json\<close> and none when it is named \<^verbatim>\<open>roofing.txt\<close>.\<close>

theorem text_files_counterexample:
  "records env_text_records ''services/roofing.txt'' = [PDict [(''title'', PStr ''Roofing'')]]
   \<and> records env_text_records ''services/roofing.json'' = [PDict [(''title'', PStr ''Roofing'')]]
   \<and> services_items env_text_records ''services'' [''roofing.txt''] = []
   \<and> services_items env_text_records ''services'' [''roofing.json''] =
       [service_card env_text_records [(''title'', PStr ''Roofing'')] ''roofing.json'']"
proof -
  have r1: "records env_text_records ''services/roofing.txt'' = [PDict [(''title'', PStr ''Roofing'')]]"
    by code_simp
  have r2: "records env_text_records ''services/roofing.json'' = [PDict [(''title'', PStr ''Roofing'')]]"
    by code_simp
  have e1: "\<not> endswith_any (lower ''roofing.txt'') data_exts"
    by code_simp
  have e2: "endswith_any (lower ''roofing.json'') data_exts"
    by code_simp
  have j: "join_path ''services'' ''roofing.json'' = ''services/roofing.json''"
    by code_simp
  have i1: "services_items env_text_records ''services'' [''roofing.txt''] = []"
    using e1 by (simp add: services_items_def services_file_items_def)
  have i2: "services_items env_text_records ''services'' [''roofing.json''] =
       [service_card env_text_records [(''title'', PStr ''Roofing'')] ''roofing.json'']"
    using e2 by (simp add: services_items_def services_file_items_def j r2 expand_services_def dget_def)
  show ?thesis using r1 r2 i1 i2 by simp
qed

end
